theory Spec2Isabelle
  imports Complex_Main "HOL-Library.Char_ord" "HOL-Library.List_Lexorder" "HOL-Library.Product_Lexorder"
begin

text \<open>
  A model of the \<open>dpdutils\<close> package: the INRIX Roadway Analytics client
  (\<open>inrix/roadway/api.py\<close>) and corridor aggregation (\<open>inrix/roadway/datapro.py\<close>), the
  Swiftly client and reshaper (\<open>swiftly/api.py\<close>, \<open>swiftly/datapro.py\<close>) and the BATA
  volume reshaper (\<open>bata.py\<close>). The first part gives the definitions, module by module;
  the second part proves the properties.
\<close>

section \<open>Exceptions\<close>

text \<open>
  Every exception the modelled Python raises is a value of \<open>error\<close>; a function that can
  raise returns \<open>error + 'a\<close>, with \<open>Inl\<close> for the exception. \<open>HTTPError\<close> carries the
  status code of the response that \<open>raise_for_status\<close> was called on, the other
  constructors carry the message or the missing key.
\<close>

datatype error =
    HTTPError nat
  | ValueError string
  | KeyError string
  | IndexError
  | AttributeError
  | TypeError
  | NotImplementedError string
  | InrixTimeout string
  | FileNotFoundError string
  | BadZipFile
  | ParserError
  | JSONDecodeError

section \<open>HTTP responses (the \<open>requests\<close> library)\<close>

text \<open>
  A response has a status code, a body (\<open>r.content\<close>) and, when the body is valid JSON,
  its decoded form (\<open>r.json()\<close>; \<open>None\<close> when decoding raises). \<open>raise_for_status\<close>
  raises for the codes 400 to 599 and does nothing otherwise.
\<close>

record 'j response =
  status_code :: nat
  content :: string
  json :: "'j option"

definition raise_for_status :: "'j response \<Rightarrow> error + unit" where
  "raise_for_status r =
     (if 400 \<le> status_code r \<and> status_code r < 600 then Inl (HTTPError (status_code r))
      else Inr ())"

definition r_json :: "'j response \<Rightarrow> error + 'j" where
  "r_json r = (case json r of None \<Rightarrow> Inl JSONDecodeError | Some j \<Rightarrow> Inr j)"

section \<open>dpdutils/inrix/roadway/api.py\<close>

subsection \<open>get_report_bytes\<close>

text \<open>
  \<open>report_data\<close> is the decoded answer of the result endpoint; only its \<open>urls\<close> entry is
  read. \<open>requests_get\<close> is the network: the response the server gives for a URL.
  The function checks the number of URLs, fetches the first one and returns the body of
  the response, whatever its status code is: there is no \<open>raise_for_status\<close> here.
\<close>

record report_data =
  urls :: "string list"

definition get_report_bytes :: "(string \<Rightarrow> 'j response) \<Rightarrow> report_data \<Rightarrow> error + string" where
  "get_report_bytes requests_get rd =
     (if length (urls rd) > 1 then Inl (NotImplementedError ''Report contains multiple urls'')
      else case urls rd of
             [] \<Rightarrow> Inl IndexError
           | u # _ \<Rightarrow> (let r = requests_get u in Inr (content r)))"

text \<open>
  \<open>get_report_data\<close>, the step before: the same kind of request, followed by
  \<open>raise_for_status\<close>, as in every other request of the module.
\<close>

definition get_report_data :: "(string \<Rightarrow> 'j response) \<Rightarrow> string \<Rightarrow> error + 'j" where
  "get_report_data requests_get report_id =
     (let r = requests_get (''https://roadway-analytics-api.inrix.com/v1/data-downloader/'' @ report_id)
      in case raise_for_status r of Inl e \<Rightarrow> Inl e | Inr _ \<Rightarrow> r_json r)"

subsection \<open>check_report_status and wait_for_report_completion\<close>

text \<open>
  The outside world of a wait: the clock that \<open>time.time()\<close> reads, in seconds, and the
  status endpoint of the report waited for. \<open>status_source env k\<close> is the response to the
  \<open>k\<close>-th status request (counted from 0) and \<open>latency env k\<close> the seconds that request
  takes. \<open>time.sleep\<close> advances the clock by its argument. The access token and the
  report id are fixed during a wait and are part of the environment. The \<open>print\<close> calls
  of the source are left out.
\<close>

record world =
  now :: nat
  sent :: nat

record status_env =
  status_source :: "nat \<Rightarrow> (string \<Rightarrow> string option) response"
  latency :: "nat \<Rightarrow> nat"

definition time_sleep :: "nat \<Rightarrow> world \<Rightarrow> world" where
  "time_sleep secs w = w\<lparr>now := now w + secs\<rparr>"

definition check_report_status ::
  "status_env \<Rightarrow> world \<Rightarrow> (error + (string \<Rightarrow> string option)) \<times> world" where
  "check_report_status env w =
     (let r = status_source env (sent w);
          w' = w\<lparr>now := now w + latency env (sent w), sent := Suc (sent w)\<rparr>
      in case raise_for_status r of
           Inl e \<Rightarrow> (Inl e, w')
         | Inr _ \<Rightarrow> (r_json r, w'))"

definition max_wait :: nat where
  "max_wait = 60 * 10"

definition check_interval :: nat where
  "check_interval = 10"

text \<open>
  The \<open>while\<close> loop of \<open>wait_for_report_completion\<close>. Its variables are \<open>report_status\<close>
  and \<open>elapsed\<close>; \<open>start\<close> is constant. \<open>report_status["state"]\<close> raises \<open>KeyError\<close> when
  the key is missing.
\<close>

function wait_loop ::
  "status_env \<Rightarrow> nat \<Rightarrow> (string \<Rightarrow> string option) \<Rightarrow> nat \<Rightarrow> world \<Rightarrow> (error + unit) \<times> world" where
  "wait_loop env start report_status elapsed w =
     (case report_status ''state'' of
        None \<Rightarrow> (Inl (KeyError ''state''), w)
      | Some st \<Rightarrow>
          if st \<noteq> ''COMPLETED'' then
            (if elapsed \<ge> max_wait then
               (Inl (InrixTimeout ''Inrix report generation took over 10.0 minutes''), w)
             else
               (case check_report_status env (time_sleep check_interval w) of
                  (Inl e, w') \<Rightarrow> (Inl e, w')
                | (Inr report_status', w') \<Rightarrow>
                    wait_loop env start report_status' (now w' - start) w'))
          else (Inr (), w))"
  by pat_completeness auto
termination
proof (relation "measure (\<lambda>(env, start, report_status, elapsed, w).
          if elapsed \<ge> max_wait then 0 else 1 + (max_wait + start + check_interval - now w))")
  show "wf (measure (\<lambda>(env, start, report_status, elapsed, w).
          if elapsed \<ge> max_wait then 0 else 1 + (max_wait + start + check_interval - now w)))"
    by simp
next
  fix env :: status_env and start elapsed :: nat and report_status :: "string \<Rightarrow> string option"
    and w w' :: world and st x report_status'
  assume "\<not> max_wait \<le> elapsed"
    and "(x, w') = check_report_status env (time_sleep check_interval w)"
  then show "((env, start, report_status', now w' - start, w'), (env, start, report_status, elapsed, w))
      \<in> measure (\<lambda>(env, start, report_status, elapsed, w).
          if elapsed \<ge> max_wait then 0 else 1 + (max_wait + start + check_interval - now w))"
    by (auto simp: check_report_status_def time_sleep_def Let_def check_interval_def
        split: sum.splits)
qed

definition wait_for_report_completion :: "status_env \<Rightarrow> world \<Rightarrow> (error + unit) \<times> world" where
  "wait_for_report_completion env w =
     (let start = now w;
          elapsed = now w - start
      in case check_report_status env w of
           (Inl e, w') \<Rightarrow> (Inl e, w')
         | (Inr report_status, w') \<Rightarrow> wait_loop env start report_status elapsed w')"


text \<open>The exception the loop raises: \<open>max_wait/60\<close> is printed as \<open>10.0\<close>.\<close>

definition timeout_error :: error where
  "timeout_error = InrixTimeout ''Inrix report generation took over 10.0 minutes''"


text \<open>
  A status endpoint that takes 100 seconds for each answer and reports a pending report
  until its tenth answer.
\<close>

definition slow_endpoint :: status_env where
  "slow_endpoint =
     \<lparr>status_source = (\<lambda>k. \<lparr>status_code = 200, content = [],
          json = Some [''state'' \<mapsto> (if k < 9 then ''PENDING'' else ''COMPLETED'')]\<rparr>),
      latency = (\<lambda>k. 100)\<rparr>"


section \<open>dpdutils/swiftly/api.py\<close>

text \<open>Decimal digits of a natural number, for \<open>str.format\<close> on a status code.\<close>

definition digit_char :: "nat \<Rightarrow> char" where
  "digit_char d = char_of (48 + d)"

function str_nat :: "nat \<Rightarrow> string" where
  "str_nat n = (if n < 10 then [digit_char n] else str_nat (n div 10) @ [digit_char (n mod 10)])"
  by pat_completeness auto
termination
  by (relation "measure id") auto

declare str_nat.simps [simp del]

subsection \<open>make_api_call\<close>

text \<open>
  \<open>requests_get k\<close> is the response to the \<open>k\<close>-th request sent (the URL, the parameters
  and the \<open>Authorization\<close> header are the same in every attempt of one call). The loop
  variable \<open>keep_trying\<close> is the recursion: it stays true exactly where the loop goes
  round again. After a 200 the loop ends and \<open>r.json()\<close> is returned. On a 429 the
  function sleeps 1000 seconds while \<open>attempt_number < max_attempts\<close> and otherwise calls
  \<open>raise_for_status\<close>; on any other code it calls \<open>raise_for_status\<close> and then raises
  \<open>ValueError\<close>.
\<close>

definition max_attempts :: nat where
  "max_attempts = 10"

function make_api_loop :: "(nat \<Rightarrow> 'j response) \<Rightarrow> nat \<Rightarrow> world \<Rightarrow> (error + 'j) \<times> world" where
  "make_api_loop requests_get attempt_number w =
     (let attempt_number' = attempt_number + 1;
          r = requests_get (sent w);
          w' = w\<lparr>sent := Suc (sent w)\<rparr>
      in if status_code r = 200 then (r_json r, w')
         else if status_code r = 429 then
           (if attempt_number' < max_attempts then
              make_api_loop requests_get attempt_number' (time_sleep 1000 w')
            else (case raise_for_status r of
                    Inl e \<Rightarrow> (Inl e, w')
                  | Inr _ \<Rightarrow> make_api_loop requests_get attempt_number' w'))
         else (case raise_for_status r of
                 Inl e \<Rightarrow> (Inl e, w')
               | Inr _ \<Rightarrow>
                   (Inl (ValueError (''Unhandeled response status code: '' @ str_nat (status_code r))),
                    w')))"
  by pat_completeness auto
termination
  apply (relation "measure (\<lambda>(requests_get, attempt_number, w). max_attempts - attempt_number)")
    apply (auto simp: raise_for_status_def)
  done

declare make_api_loop.simps [simp del]

definition make_api_call :: "(nat \<Rightarrow> 'j response) \<Rightarrow> world \<Rightarrow> (error + 'j) \<times> world" where
  "make_api_call requests_get w = make_api_loop requests_get 0 w"

text \<open>Two servers: one that is always busy, one that is busy twice and then answers.\<close>

definition always_429 :: "nat \<Rightarrow> string response" where
  "always_429 k = \<lparr>status_code = 429, content = ''Too Many Requests'', json = None\<rparr>"

definition busy_twice :: "nat \<Rightarrow> string response" where
  "busy_twice k =
     (if k < 2 then \<lparr>status_code = 429, content = ''Too Many Requests'', json = None\<rparr>
      else \<lparr>status_code = 200, content = ''{}'', json = Some ''{}''\<rparr>)"

section \<open>dpdutils/swiftly/datapro.py\<close>

subsection \<open>Python values and the store\<close>

text \<open>
  The segments that the Speed Map API returns are JSON objects. The function below
  changes dict objects in place, so the dicts of a segment list live in a store: a
  segment list is a list of addresses, and an address is an index into the store. Two
  entries of a list may hold the same address (the same dict object twice). A dict is
  an association list in insertion order; its values are JSON values, which the function
  only reads.
\<close>

datatype json =
    JNull
  | JBool bool
  | JNum rat
  | JStr string
  | JList "json list"
  | JDict "(string \<times> json) list"

type_synonym pydict = "(string \<times> json) list"

type_synonym store = "pydict list"

text \<open>
  \<open>del d[k]\<close>, \<open>d[k] = v\<close> and \<open>d.pop(k)\<close>. Deleting or popping a missing key raises
  \<open>KeyError\<close>; assigning to an existing key keeps its position.
\<close>

definition dict_del :: "string \<Rightarrow> pydict \<Rightarrow> error + pydict" where
  "dict_del k d =
     (if k \<in> set (map fst d) then Inr (filter (\<lambda>kv. fst kv \<noteq> k) d) else Inl (KeyError k))"

definition dict_set :: "string \<Rightarrow> json \<Rightarrow> pydict \<Rightarrow> pydict" where
  "dict_set k v d =
     (if k \<in> set (map fst d) then map (\<lambda>kv. if fst kv = k then (k, v) else kv) d
      else d @ [(k, v)])"

definition dict_pop :: "string \<Rightarrow> pydict \<Rightarrow> error + (json \<times> pydict)" where
  "dict_pop k d =
     (case map_of d k of
        None \<Rightarrow> Inl (KeyError k)
      | Some v \<Rightarrow> Inr (v, filter (\<lambda>kv. fst kv \<noteq> k) d))"

subsection \<open>speed_map_segs_to_geojson\<close>

text \<open>
  \<open>copy.deepcopy(seg_list)\<close>: every dict of the list is copied to a new address, the end
  of the store. The memo of \<open>deepcopy\<close> maps an address already copied to its copy, so a
  dict that occurs twice in the list is copied once and its copy occurs twice.
\<close>

fun deepcopy_segs :: "(nat \<times> nat) list \<Rightarrow> nat list \<Rightarrow> store \<Rightarrow> nat list \<times> store" where
  "deepcopy_segs memo [] s = ([], s)"
| "deepcopy_segs memo (a # as) s =
     (case map_of memo a of
        Some b \<Rightarrow> (case deepcopy_segs memo as s of (bs, s') \<Rightarrow> (b # bs, s'))
      | None \<Rightarrow>
          (let b = length s
           in case deepcopy_segs ((a, b) # memo) as (s @ [s ! a]) of (bs, s') \<Rightarrow> (b # bs, s')))"

text \<open>
  \<open>[[p['lon'], p['lat']] for p in pathLocs]\<close>. A point that is a dict needs both keys; a
  point that is no dict, or a \<open>pathLocs\<close> that is no list, raises \<open>TypeError\<close> (an empty
  dict or string iterates over nothing).
\<close>

fun point_lon_lat :: "json \<Rightarrow> error + (json \<times> json)" where
  "point_lon_lat (JDict p) =
     (case map_of p ''lon'' of
        None \<Rightarrow> Inl (KeyError ''lon'')
      | Some lon \<Rightarrow>
          (case map_of p ''lat'' of
             None \<Rightarrow> Inl (KeyError ''lat'')
           | Some lat \<Rightarrow> Inr (lon, lat)))"
| "point_lon_lat _ = Inl TypeError"

fun points_lon_lat :: "json list \<Rightarrow> error + (json \<times> json) list" where
  "points_lon_lat [] = Inr []"
| "points_lon_lat (p # ps) =
     (case point_lon_lat p of
        Inl e \<Rightarrow> Inl e
      | Inr c \<Rightarrow> (case points_lon_lat ps of Inl e \<Rightarrow> Inl e | Inr cs \<Rightarrow> Inr (c # cs)))"

fun path_coords :: "json \<Rightarrow> error + (json \<times> json) list" where
  "path_coords (JList ps) = points_lon_lat ps"
| "path_coords (JDict kvs) = (if kvs = [] then Inr [] else Inl TypeError)"
| "path_coords (JStr cs) = (if cs = [] then Inr [] else Inl TypeError)"
| "path_coords _ = Inl TypeError"

text \<open>
  A feature \<open>{'type': 'Feature', 'geometry': {'type': 'LineString', 'coordinates': coords},
  'properties': seg}\<close>: its coordinates and the address of the dict that is its properties.
  The result \<open>{'type': 'FeatureCollection', 'features': [...]}\<close> is the list of features.
\<close>

record feature =
  coordinates :: "(json \<times> json) list"
  properties :: nat

text \<open>The body of the \<open>for\<close> loop, on the segment at address \<open>seg\<close> with index \<open>i\<close>.\<close>

definition loop_body :: "nat \<Rightarrow> nat \<Rightarrow> store \<Rightarrow> (error + feature) \<times> store" where
  "loop_body i seg s =
     (case dict_del ''fromStop'' (s ! seg) of
        Inl e \<Rightarrow> (Inl e, s)
      | Inr d1 \<Rightarrow>
          let s1 = s[seg := d1]
          in (case dict_del ''toStop'' (s1 ! seg) of
                Inl e \<Rightarrow> (Inl e, s1)
              | Inr d2 \<Rightarrow>
                  let s2 = s1[seg := d2];
                      s3 = s2[seg := dict_set ''order'' (JNum (of_nat i)) (s2 ! seg)]
                  in (case dict_pop ''pathLocs'' (s3 ! seg) of
                        Inl e \<Rightarrow> (Inl e, s3)
                      | Inr (pathLocs, d4) \<Rightarrow>
                          let s4 = s3[seg := d4]
                          in (case path_coords pathLocs of
                                Inl e \<Rightarrow> (Inl e, s4)
                              | Inr coords \<Rightarrow>
                                  (Inr \<lparr>coordinates = coords, properties = seg\<rparr>, s4)))))"

fun build_features :: "nat \<Rightarrow> nat list \<Rightarrow> store \<Rightarrow> (error + feature list) \<times> store" where
  "build_features i [] s = (Inr [], s)"
| "build_features i (seg # segs) s =
     (case loop_body i seg s of
        (Inl e, s1) \<Rightarrow> (Inl e, s1)
      | (Inr new_feature, s1) \<Rightarrow>
          (case build_features (i + 1) segs s1 of
             (Inl e, s') \<Rightarrow> (Inl e, s')
           | (Inr fs, s') \<Rightarrow> (Inr (new_feature # fs), s')))"

definition speed_map_segs_to_geojson :: "nat list \<Rightarrow> store \<Rightarrow> (error + feature list) \<times> store" where
  "speed_map_segs_to_geojson seg_list s =
     (case deepcopy_segs [] seg_list s of
        (seg_list_copy, s1) \<Rightarrow> build_features 0 seg_list_copy s1)"

text \<open>A segment as the API returns it.\<close>

definition seg0 :: pydict where
  "seg0 =
     [(''fromStop'', JStr ''A''),
      (''toStop'', JStr ''B''),
      (''speed'', JNum 12),
      (''pathLocs'', JList [JDict [(''lat'', JNum 37), (''lon'', JNum (-122))],
                           JDict [(''lat'', JNum 38), (''lon'', JNum (-121))]])]"

section \<open>Data frames (the \<open>pandas\<close> library)\<close>

text \<open>
  \<open>sum\<close> skips missing values (\<open>NaN\<close>, here \<open>None\<close>), and the sum of no value is 0.
  \<open>df.groupby(keys)[col].sum()\<close> has one row for each distinct key, in the order of the
  keys, with the sum of the column over the rows of that key. A row whose key is missing
  (\<open>NaN\<close> in a key column, here the key \<open>None\<close>) belongs to no group.
\<close>

definition nansum :: "'v::comm_monoid_add option list \<Rightarrow> 'v" where
  "nansum vs = sum_list (map (\<lambda>v. case v of None \<Rightarrow> 0 | Some x \<Rightarrow> x) vs)"

definition groupby_sum ::
  "('r \<Rightarrow> 'k::linorder option) \<Rightarrow> ('r \<Rightarrow> 'v::comm_monoid_add option) \<Rightarrow> 'r list
     \<Rightarrow> ('k \<times> 'v) list" where
  "groupby_sum by_key col rows =
     map (\<lambda>k. (k, nansum (map col (filter (\<lambda>r. by_key r = Some k) rows))))
       (sort (remdups (List.map_filter by_key rows)))"

section \<open>dpdutils/bata.py\<close>

subsection \<open>Timestamps\<close>

text \<open>
  A date is a day number and a timestamp is a date with an hour, a minute and a second;
  \<open>epoch_seconds\<close> is its position on the time line. The source builds the text
  \<open>str(date) + " " + hour[:4] + "01"\<close> and gives it to \<open>pd.to_datetime\<close>: the date part
  is read back as the date, and the six digits as \<open>HHMMSS\<close>. A missing date or digits
  that are no time of day make \<open>to_datetime\<close> fail.
\<close>

type_synonym timestamp = "int \<times> nat \<times> nat \<times> nat"

definition epoch_seconds :: "timestamp \<Rightarrow> int" where
  "epoch_seconds t =
     (case t of (d, h, m, s) \<Rightarrow> d * 86400 + int h * 3600 + int m * 60 + int s)"

definition digit_val :: "char \<Rightarrow> nat option" where
  "digit_val c =
     (let n = (of_char c :: nat) in if 48 \<le> n \<and> n \<le> 57 then Some (n - 48) else None)"

fun two_digits :: "string \<Rightarrow> nat option" where
  "two_digits [a, b] =
     (case (digit_val a, digit_val b) of
        (Some x, Some y) \<Rightarrow> Some (10 * x + y)
      | _ \<Rightarrow> None)"
| "two_digits _ = None"

definition parse_hhmmss :: "string \<Rightarrow> (nat \<times> nat \<times> nat) option" where
  "parse_hhmmss cs =
     (if length cs = 6 then
        (case (two_digits (take 2 cs), two_digits (take 2 (drop 2 cs)), two_digits (drop 4 cs)) of
           (Some h, Some m, Some s) \<Rightarrow> if h < 24 \<and> m < 60 \<and> s < 60 then Some (h, m, s) else None
         | _ \<Rightarrow> None)
      else None)"

definition to_datetime :: "int \<Rightarrow> string \<Rightarrow> timestamp option" where
  "to_datetime d tm = (case parse_hhmmss tm of None \<Rightarrow> None | Some (h, m, s) \<Rightarrow> Some (d, h, m, s))"

definition time_cols :: "string list" where
  "time_cols =
     [''0000-0100'', ''0100-0200'', ''0200-0300'', ''0300-0400'', ''0400-0500'', ''0500-0600'',
      ''0600-0700'', ''0700-0800'', ''0800-0900'', ''0900-1000'', ''1000-1100'', ''1100-1200'',
      ''1200-1300'', ''1300-1400'', ''1400-1500'', ''1500-1600'', ''1600-1700'', ''1700-1800'',
      ''1800-1900'', ''1900-2000'', ''2000-2100'', ''2100-2200'', ''2200-2300'', ''2300-2400'']"

subsection \<open>ctvr_to_long\<close>

text \<open>
  The function is modelled from the rows of the sheet \<open>DAILY BY HOUR BY LANE\<close>, with its
  columns \<open>Date\<close>, \<open>Day\<close>, \<open>Lane ID\<close> and the 24 hour columns (\<open>hour_volume r h\<close> is the
  cell of row \<open>r\<close> in column \<open>h\<close>), to the frame it returns; reading the workbook and
  writing the CSV file are left out. \<open>melt\<close> goes through the hour columns in order, and
  through the rows for each of them.
\<close>

definition hour_timestamp :: "int option \<Rightarrow> string \<Rightarrow> timestamp option" where
  "hour_timestamp date hour =
     (case date of None \<Rightarrow> None | Some d \<Rightarrow> to_datetime d (take 4 hour @ ''01''))"

record sheet_row =
  Date :: "int option"
  Day :: string
  Lane_ID :: "string option"
  hour_volume :: "string \<Rightarrow> int option"

record melted_row =
  m_Date :: "int option"
  m_Day :: string
  m_Lane_ID :: "string option"
  Hour :: string
  Volume :: "int option"

record stamped_row = melted_row +
  Timestamp :: timestamp

definition dropna_Date :: "sheet_row list \<Rightarrow> sheet_row list" where
  "dropna_Date rows = filter (\<lambda>r. Date r \<noteq> None) rows"

definition melt :: "sheet_row list \<Rightarrow> melted_row list" where
  "melt rows =
     concat (map (\<lambda>h. map (\<lambda>r. \<lparr>m_Date = Date r, m_Day = Day r, m_Lane_ID = Lane_ID r,
                                    Hour = h, Volume = hour_volume r h\<rparr>) rows) time_cols)"

definition add_timestamp :: "melted_row \<Rightarrow> stamped_row option" where
  "add_timestamp r =
     (case hour_timestamp (m_Date r) (Hour r) of
        None \<Rightarrow> None
      | Some t \<Rightarrow> Some (melted_row.extend r \<lparr>Timestamp = t\<rparr>))"

text \<open>
  The four frames the function returns, by the two flags. Of the grouped frames the keys
  and the \<open>Volume\<close> sums are modelled. The last \<open>elif\<close> of the source is the \<open>else\<close>
  here: the two flags have no fifth case. A lane id can be missing (\<open>None\<close>): such a row
  is in the frame without aggregation and in the sums by timestamp and by date, and in no
  group of \<open>groupby([date, "Lane ID"])\<close>. In the two modes that select the \<open>Volume\<close>
  column of a grouped sum, \<open>.sum()["Volume"]\<close>, a frame without rows has no such
  column after the sum (its \<open>Volume\<close> column holds no numbers), and the selection raises
  \<open>KeyError\<close>.
\<close>

datatype long_table =
    Unaggregated "(timestamp \<times> string option \<times> int option) list"
  | Lanes_summed "(timestamp \<times> int) list"
  | Hours_summed "((int \<times> string) \<times> int) list"
  | All_summed "(int \<times> int) list"

fun n_rows :: "long_table \<Rightarrow> nat" where
  "n_rows (Unaggregated rows) = length rows"
| "n_rows (Lanes_summed rows) = length rows"
| "n_rows (Hours_summed rows) = length rows"
| "n_rows (All_summed rows) = length rows"

definition ctvr_to_long :: "sheet_row list \<Rightarrow> bool \<Rightarrow> bool \<Rightarrow> error + long_table" where
  "ctvr_to_long sheet sum_lanes sum_hours =
     (case those (map add_timestamp (melt (dropna_Date sheet))) of
        None \<Rightarrow> Inl ParserError
      | Some data \<Rightarrow>
          if \<not> sum_lanes \<and> \<not> sum_hours then
            Inr (Unaggregated (map (\<lambda>r. (Timestamp r, m_Lane_ID r, Volume r)) data))
          else if sum_lanes \<and> \<not> sum_hours then
            (if data = [] then Inl (KeyError ''Volume'')
             else Inr (Lanes_summed (groupby_sum (\<lambda>r. Some (Timestamp r)) Volume data)))
          else if \<not> sum_lanes \<and> sum_hours then
            Inr (Hours_summed
                   (groupby_sum (\<lambda>r. map_option (\<lambda>lane. (fst (Timestamp r), lane)) (m_Lane_ID r))
                      Volume data))
          else
            (if data = [] then Inl (KeyError ''Volume'')
             else Inr (All_summed (groupby_sum (\<lambda>r. Some (fst (Timestamp r))) Volume data))))"

text \<open>
  A sheet with two lanes on three days and a totals row without a date; and the stamped
  row that \<open>add_timestamp\<close> gives for a melted row of a dated row, used in the proofs.
\<close>

definition sheet2 :: "sheet_row list" where
  "sheet2 =
     [\<lparr>Date = Some 18262, Day = ''Wed'', Lane_ID = Some ''1'', hour_volume = (\<lambda>h. Some 10)\<rparr>,
      \<lparr>Date = Some 18262, Day = ''Wed'', Lane_ID = Some ''2'', hour_volume = (\<lambda>h. Some 20)\<rparr>,
      \<lparr>Date = Some 18263, Day = ''Thu'', Lane_ID = Some ''1'', hour_volume = (\<lambda>h. None)\<rparr>,
      \<lparr>Date = Some 18263, Day = ''Thu'', Lane_ID = Some ''2'', hour_volume = (\<lambda>h. Some 5)\<rparr>,
      \<lparr>Date = Some 18264, Day = ''Fri'', Lane_ID = Some ''1'', hour_volume = (\<lambda>h. Some 7)\<rparr>,
      \<lparr>Date = Some 18264, Day = ''Fri'', Lane_ID = Some ''2'', hour_volume = (\<lambda>h. Some 8)\<rparr>,
      \<lparr>Date = None, Day = ''Total'', Lane_ID = None, hour_volume = (\<lambda>h. Some 50)\<rparr>]"

definition stamp :: "melted_row \<Rightarrow> stamped_row" where
  "stamp r = melted_row.extend r
     \<lparr>Timestamp = (the (m_Date r), fst (the (parse_hhmmss (take 4 (Hour r) @ ''01''))), 0, 1)\<rparr>"

section \<open>dpdutils/inrix/roadway/datapro.py\<close>

subsection \<open>Floating-point values\<close>

text \<open>
  The travel times and lengths of an archive are finite numbers or missing (\<open>NaN\<close>,
  here \<open>None\<close>), and they are modelled as rationals: rounding and signed zeros are left
  out. A float of a result column is a number, an infinity or \<open>NaN\<close>, since a division
  by zero raises nothing in a data frame: it gives \<open>inf\<close>, \<open>-inf\<close> or, for \<open>0/0\<close>, \<open>NaN\<close>.
  A missing dividend gives \<open>NaN\<close>.
\<close>

datatype pyfloat = Num rat | PInf | NInf | NaN

definition float_div :: "rat option \<Rightarrow> rat \<Rightarrow> pyfloat" where
  "float_div a b =
     (case a of
        None \<Rightarrow> NaN
      | Some x \<Rightarrow>
          if b = 0 then (if x = 0 then NaN else if 0 < x then PInf else NInf)
          else Num (x / b))"

fun float_times_60 :: "pyfloat \<Rightarrow> pyfloat" where
  "float_times_60 (Num x) = Num (x * 60)"
| "float_times_60 PInf = PInf"
| "float_times_60 NInf = NInf"
| "float_times_60 NaN = NaN"

subsection \<open>The holder and its tables\<close>

text \<open>
  \<open>drop_duplicates(subset=...)\<close> keeps the first row of each key. The rows of
  \<open>data.csv\<close> (with the columns \<open>Corridor/Region Name\<close>, \<open>Date Time\<close>, \<open>Segment ID\<close> and
  \<open>Travel Time(Minutes)\<close> that the module reads), of \<open>metadata.csv\<close> (\<open>Segment ID\<close>,
  \<open>Segment Length(Miles)\<close>) and the corridors of \<open>reportContents.json\<close> are the three
  tables of a \<open>CorridorReportZip\<close>; a table that has not been loaded is \<open>None\<close>.
\<close>

primrec keep_first :: "('a \<Rightarrow> 'k) \<Rightarrow> 'k list \<Rightarrow> 'a list \<Rightarrow> 'a list" where
  "keep_first by_key seen [] = []"
| "keep_first by_key seen (x # xs) =
     (if by_key x \<in> set seen then keep_first by_key seen xs
      else x # keep_first by_key (by_key x # seen) xs)"

definition drop_duplicates :: "('a \<Rightarrow> 'k) \<Rightarrow> 'a list \<Rightarrow> 'a list" where
  "drop_duplicates by_key rows = keep_first by_key [] rows"

record observation =
  Corridor_Region_Name :: string
  Date_Time :: string
  Segment_ID :: int
  Travel_Time_Minutes :: "rat option"

record metadata_row =
  md_Segment_ID :: int
  Segment_Length_Miles :: "rat option"

record corridor =
  name :: string
  direction :: string
  xdSegIds :: "int list"

record report =
  corridors :: "corridor list"

datatype zip_source = BytesIO string | PathObj string

record holder =
  ra_zip :: "zip_source option"
  data :: "observation list option"
  metadata :: "metadata_row list option"
  report_contents :: "report option"

subsection \<open>read_zip\<close>

text \<open>
  The argument is a bytes object or a path. The environment says which paths exist,
  what \<open>zipfile.ZipFile\<close> finds in a source (the members in the order of
  \<open>namelist()\<close>, with their contents, or the exception it raises), and what
  \<open>pd.read_csv\<close> and \<open>json.load\<close> make of a member. Each private loader opens the
  archive of \<open>self.ra_zip\<close>, takes the first name as the root directory, opens its member
  (\<open>read_member\<close>; a missing member is a \<open>KeyError\<close>) and stores the table in the holder.
\<close>

datatype zip_arg = Bytes string | Path_like string

record zip_env =
  path_exists :: "string \<Rightarrow> bool"
  ZipFile :: "zip_source \<Rightarrow> error + (string \<times> string) list"
  read_csv_data :: "string \<Rightarrow> error + observation list"
  read_csv_metadata :: "string \<Rightarrow> error + metadata_row list"
  json_load :: "string \<Rightarrow> error + report"

definition read_member :: "zip_env \<Rightarrow> zip_source \<Rightarrow> string \<Rightarrow> error + string" where
  "read_member env src fname =
     (case ZipFile env src of
        Inl e \<Rightarrow> Inl e
      | Inr members \<Rightarrow>
          (case members of
             [] \<Rightarrow> Inl IndexError
           | (zip_root, _) # _ \<Rightarrow>
               (let target = zip_root @ fname
                in case map_of members target of
                     None \<Rightarrow> Inl (KeyError target)
                   | Some bytes \<Rightarrow> Inr bytes)))"

definition open_member :: "zip_env \<Rightarrow> holder \<Rightarrow> string \<Rightarrow> error + string" where
  "open_member env self fname =
     (case ra_zip self of
        None \<Rightarrow> Inl TypeError
      | Some src \<Rightarrow> read_member env src fname)"

definition load_data :: "zip_env \<Rightarrow> holder \<Rightarrow> (error + unit) \<times> holder" where
  "load_data env self =
     (case open_member env self ''data.csv'' of
        Inl e \<Rightarrow> (Inl e, self)
      | Inr data_csv \<Rightarrow>
          (case read_csv_data env data_csv of
             Inl e \<Rightarrow> (Inl e, self)
           | Inr df \<Rightarrow> (Inr (), self\<lparr>data := Some df\<rparr>)))"

definition load_metadata :: "zip_env \<Rightarrow> holder \<Rightarrow> (error + unit) \<times> holder" where
  "load_metadata env self =
     (case open_member env self ''metadata.csv'' of
        Inl e \<Rightarrow> (Inl e, self)
      | Inr metadata_csv \<Rightarrow>
          (case read_csv_metadata env metadata_csv of
             Inl e \<Rightarrow> (Inl e, self)
           | Inr df \<Rightarrow> (Inr (), self\<lparr>metadata := Some df\<rparr>)))"

definition load_report_contents :: "zip_env \<Rightarrow> holder \<Rightarrow> (error + unit) \<times> holder" where
  "load_report_contents env self =
     (case open_member env self ''reportContents.json'' of
        Inl e \<Rightarrow> (Inl e, self)
      | Inr report_contents_json \<Rightarrow>
          (case json_load env report_contents_json of
             Inl e \<Rightarrow> (Inl e, self)
           | Inr rc \<Rightarrow> (Inr (), self\<lparr>report_contents := Some rc\<rparr>)))"

text \<open>
  The \<open>try\<close> block of \<open>read_zip\<close> with its two \<open>except\<close> clauses: a
  \<open>FileNotFoundError\<close> makes the method return \<open>False\<close>, any other exception is raised
  again. Without an exception the method ends without a \<open>return\<close>, so it returns \<open>None\<close>.
\<close>

fun except_clauses :: "error \<Rightarrow> holder \<Rightarrow> (error + bool option) \<times> holder" where
  "except_clauses (FileNotFoundError _) self = (Inr (Some False), self)"
| "except_clauses e self = (Inl e, self)"

definition try_loads :: "zip_env \<Rightarrow> holder \<Rightarrow> (error + bool option) \<times> holder" where
  "try_loads env self =
     (case load_data env self of
        (Inl e, self1) \<Rightarrow> except_clauses e self1
      | (Inr _, self1) \<Rightarrow>
          (case load_metadata env self1 of
             (Inl e, self2) \<Rightarrow> except_clauses e self2
           | (Inr _, self2) \<Rightarrow>
               (case load_report_contents env self2 of
                  (Inl e, self3) \<Rightarrow> except_clauses e self3
                | (Inr _, self3) \<Rightarrow> (Inr None, self3))))"

definition read_zip :: "zip_env \<Rightarrow> zip_arg \<Rightarrow> holder \<Rightarrow> (error + bool option) \<times> holder" where
  "read_zip env arg self =
     (case arg of
        Bytes b \<Rightarrow> try_loads env (self\<lparr>ra_zip := Some (BytesIO b)\<rparr>)
      | Path_like p \<Rightarrow>
          if \<not> path_exists env p then
            (Inl (FileNotFoundError (''The zip file '' @ p @ '' does not exist'')), self)
          else try_loads env (self\<lparr>ra_zip := Some (PathObj p)\<rparr>))"

subsection \<open>Formatting and aggregation\<close>

text \<open>
  \<open>__get_format_data_for_agg\<close>. \<open>Date Time\<close> is ISO 8601 text with a UTC offset, as in
  \<open>2021-03-01T08:00:00-08:00\<close>. The last six characters are cut off and the rest is the
  timestamp; its date is its first ten characters and its time of day starts at the
  twelfth, of which \<open>Time Interval\<close> keeps five (\<open>HH:MM\<close>).
\<close>

record formatted_row =
  fm_Corridor :: string
  fm_Date :: string
  fm_Time_Interval :: string
  fm_Segment_ID :: int
  fm_Travel_Time :: "rat option"

definition strip_offset :: "string \<Rightarrow> string" where
  "strip_offset s = take (length s - 6) s"

definition get_format_data_for_agg :: "holder \<Rightarrow> error + formatted_row list" where
  "get_format_data_for_agg self =
     (case data self of
        None \<Rightarrow> Inl AttributeError
      | Some data_formatted \<Rightarrow>
          Inr (map (\<lambda>r. \<lparr>fm_Corridor = Corridor_Region_Name r,
                          fm_Date = take 10 (strip_offset (Date_Time r)),
                          fm_Time_Interval = take 5 (drop 11 (strip_offset (Date_Time r))),
                          fm_Segment_ID = Segment_ID r,
                          fm_Travel_Time = Travel_Time_Minutes r\<rparr>)
                 (drop_duplicates (\<lambda>r. (strip_offset (Date_Time r), Segment_ID r)) data_formatted)))"

text \<open>
  \<open>__create_data_agg\<close>. \<open>groupby(gb_cols).sum()\<close> has a row for each key, in the order of
  the keys, with the sums of \<open>Segment ID\<close> and of the travel times. The loop over the
  corridors of the report writes the corridor's length and segment count into every row
  whose first key is the corridor's name; the assignment raises \<open>KeyError\<close> when there is
  no such row. \<open>alt_count\<close> counts the rows of a group that have a travel time. The
  comparison of \<open>Segment Count\<close> with \<open>alt_count\<close> keeps the rows where both are equal
  (a row without a segment count is dropped), and raises \<open>KeyError\<close> when the loop has
  not created the column, that is, when the report has no corridor.
\<close>

type_synonym group_key = "string \<times> string \<times> string"

definition gb_cols :: "formatted_row \<Rightarrow> group_key" where
  "gb_cols r = (fm_Corridor r, fm_Date r, fm_Time_Interval r)"

record agg_row =
  agg_key :: group_key
  agg_Segment_ID :: int
  agg_Travel_Time :: rat
  Corridor_Length :: "rat option"
  Segment_Count :: "nat option"

record speed_row = agg_row +
  Speed :: pyfloat

definition groupby_sum_all :: "formatted_row list \<Rightarrow> agg_row list" where
  "groupby_sum_all rows =
     map (\<lambda>k. \<lparr>agg_key = k,
                agg_Segment_ID = sum_list (map fm_Segment_ID (filter (\<lambda>r. gb_cols r = k) rows)),
                agg_Travel_Time = nansum (map fm_Travel_Time (filter (\<lambda>r. gb_cols r = k) rows)),
                Corridor_Length = None,
                Segment_Count = None\<rparr>)
       (sort (remdups (map gb_cols rows)))"

definition corridor_length :: "metadata_row list \<Rightarrow> corridor \<Rightarrow> rat" where
  "corridor_length md c =
     nansum (map Segment_Length_Miles (filter (\<lambda>m. md_Segment_ID m \<in> set (xdSegIds c)) md))"

fun assign_corridors :: "metadata_row list \<Rightarrow> corridor list \<Rightarrow> agg_row list \<Rightarrow> error + agg_row list" where
  "assign_corridors md [] data_agg = Inr data_agg"
| "assign_corridors md (c # cs) data_agg =
     (let corridor_name = name c;
          len = corridor_length md c;
          seg_count = length (xdSegIds c)
      in if corridor_name \<notin> set (map (\<lambda>r. fst (agg_key r)) data_agg) then Inl (KeyError corridor_name)
         else assign_corridors md cs
                (map (\<lambda>r. if fst (agg_key r) = corridor_name
                           then r\<lparr>Corridor_Length := Some len, Segment_Count := Some seg_count\<rparr>
                           else r) data_agg))"

definition alt_count :: "formatted_row list \<Rightarrow> group_key \<Rightarrow> nat" where
  "alt_count rows k = length (filter (\<lambda>r. gb_cols r = k \<and> fm_Travel_Time r \<noteq> None) rows)"

definition add_speed :: "agg_row \<Rightarrow> speed_row" where
  "add_speed r =
     agg_row.extend r \<lparr>Speed = float_times_60 (float_div (Corridor_Length r) (agg_Travel_Time r))\<rparr>"

definition create_data_agg :: "holder \<Rightarrow> error + speed_row list" where
  "create_data_agg self =
     (case get_format_data_for_agg self of
        Inl e \<Rightarrow> Inl e
      | Inr data_formatted \<Rightarrow>
          (case report_contents self of
             None \<Rightarrow> Inl TypeError
           | Some rc \<Rightarrow>
               (case metadata self of
                  None \<Rightarrow> (if corridors rc = [] then Inl (KeyError ''Segment Count'') else Inl TypeError)
                | Some md \<Rightarrow>
                    (case assign_corridors md (corridors rc) (groupby_sum_all data_formatted) of
                       Inl e \<Rightarrow> Inl e
                     | Inr data_agg \<Rightarrow>
                         if corridors rc = [] then Inl (KeyError ''Segment Count'')
                         else Inr (map add_speed
                                 (filter (\<lambda>r. Segment_Count r = Some (alt_count data_formatted (agg_key r)))
                                    data_agg))))))"

subsection \<open>segments_to_corridor\<close>

text \<open>
  A Python string in single quotes, for the messages. \<open>day_name\<close> is
  \<open>strftime("%A")\<close> on a date, a parameter of the model. The long table has a row for
  each row of the aggregate; the wide table is \<open>pivot_table\<close>: its cells are the rows of
  the aggregate whose metric is not \<open>NaN\<close>, its rows the (corridor, date) pairs and its
  columns the time intervals of the cells, both in order, and a pair without a cell in a
  column has \<open>NaN\<close> there. Writing the CSV file is left out. The function checks its
  arguments first; \<open>wide_metric\<close> is \<open>None\<close> when it is not given. The message of the
  second check prints \<open>out_format\<close>, as the source does.
\<close>

definition quoted :: "string \<Rightarrow> string" where
  "quoted s = CHR 0x27 # s @ [CHR 0x27]"

record long_row =
  l_Corridor :: string
  l_Date :: string
  l_Day_of_Week :: string
  l_Time_Interval :: string
  l_Speed :: pyfloat
  l_Travel_Time :: rat

record wide_row =
  w_Corridor :: string
  w_Date :: string
  w_Day_of_Week :: string
  w_cells :: "pyfloat list"

datatype corridor_table =
    Long_table "long_row list"
  | Wide_table "string list" "wide_row list"

definition pivot_table ::
  "(string \<Rightarrow> string) \<Rightarrow> (speed_row \<Rightarrow> pyfloat) \<Rightarrow> speed_row list \<Rightarrow> corridor_table" where
  "pivot_table day_name metric data_agg =
     (let cells = filter (\<lambda>r. metric r \<noteq> NaN) data_agg;
          cols = sort (remdups (map (\<lambda>r. snd (snd (agg_key r))) cells));
          index = sort (remdups (map (\<lambda>r. (fst (agg_key r), fst (snd (agg_key r)))) cells))
      in Wide_table cols
           (map (\<lambda>(c, d).
                  \<lparr>w_Corridor = c, w_Date = d, w_Day_of_Week = day_name d,
                   w_cells = map (\<lambda>t. case find (\<lambda>r. agg_key r = (c, d, t)) cells of
                                         None \<Rightarrow> NaN
                                       | Some r \<Rightarrow> metric r) cols\<rparr>)
              index))"

definition long_table :: "(string \<Rightarrow> string) \<Rightarrow> speed_row list \<Rightarrow> corridor_table" where
  "long_table day_name data_agg =
     Long_table
       (map (\<lambda>r. \<lparr>l_Corridor = fst (agg_key r),
                   l_Date = fst (snd (agg_key r)),
                   l_Day_of_Week = day_name (fst (snd (agg_key r))),
                   l_Time_Interval = snd (snd (agg_key r)),
                   l_Speed = Speed r,
                   l_Travel_Time = agg_Travel_Time r\<rparr>) data_agg)"

definition segments_to_corridor ::
  "(string \<Rightarrow> string) \<Rightarrow> holder \<Rightarrow> string \<Rightarrow> string option \<Rightarrow> error + corridor_table" where
  "segments_to_corridor day_name self out_format wide_metric =
     (if \<not> (out_format = ''wide'' \<or> out_format = ''long'') then
        Inl (ValueError (''out_format is '' @ quoted out_format @ '', should be ''
               @ quoted ''wide'' @ '' or '' @ quoted ''long''))
      else if out_format = ''wide''
              \<and> \<not> (wide_metric = Some ''speed'' \<or> wide_metric = Some ''travel_time'') then
        Inl (ValueError (''wide_metric is '' @ quoted out_format @ '', should be ''
               @ quoted ''speed'' @ '' or '' @ quoted ''travel_time''))
      else
        (case create_data_agg self of
           Inl e \<Rightarrow> Inl e
         | Inr data_agg \<Rightarrow>
             if out_format = ''wide'' then
               (if wide_metric = Some ''speed'' then Inr (pivot_table day_name Speed data_agg)
                else if wide_metric = Some ''travel_time'' then
                  Inr (pivot_table day_name (\<lambda>r. Num (agg_Travel_Time r)) data_agg)
                else Inl (ValueError (''wide_metric is '' @ quoted out_format @ '', should be ''
                            @ quoted ''speed'' @ '' or '' @ quoted ''travel_time'')))
             else if out_format = ''long'' then Inr (long_table day_name data_agg)
             else Inl (ValueError (''out_format is '' @ quoted out_format @ '', should be ''
                         @ quoted ''wide'' @ '' or '' @ quoted ''long''))))"

subsection \<open>An example archive\<close>

text \<open>
  Two segments of 1 and 2 miles in one corridor. Both report 3 minutes at 08:00; at 08:15
  only the first one reports. \<open>example_formatted\<close> is the formatted data of the example,
  \<open>example_row\<close> the row of its long table. The environment knows two archives: a
  complete one, and one without \<open>metadata.csv\<close>.
\<close>

definition example_data :: "observation list" where
  "example_data =
     [\<lparr>Corridor_Region_Name = ''Main St'', Date_Time = ''2021-03-01T08:00:00-08:00'',
       Segment_ID = 101, Travel_Time_Minutes = Some 3\<rparr>,
      \<lparr>Corridor_Region_Name = ''Main St'', Date_Time = ''2021-03-01T08:00:00-08:00'',
       Segment_ID = 102, Travel_Time_Minutes = Some 3\<rparr>,
      \<lparr>Corridor_Region_Name = ''Main St'', Date_Time = ''2021-03-01T08:15:00-08:00'',
       Segment_ID = 101, Travel_Time_Minutes = Some 4\<rparr>]"

definition example_metadata :: "metadata_row list" where
  "example_metadata =
     [\<lparr>md_Segment_ID = 101, Segment_Length_Miles = Some 1\<rparr>,
      \<lparr>md_Segment_ID = 102, Segment_Length_Miles = Some 2\<rparr>]"

definition example_report :: report where
  "example_report =
     \<lparr>corridors = [\<lparr>name = ''Main St'', direction = ''N'', xdSegIds = [101, 102]\<rparr>]\<rparr>"

definition example_holder :: holder where
  "example_holder =
     \<lparr>ra_zip = None, data = Some example_data, metadata = Some example_metadata,
      report_contents = Some example_report\<rparr>"


definition example_row :: long_row where
  "example_row =
     \<lparr>l_Corridor = ''Main St'', l_Date = ''2021-03-01'', l_Day_of_Week = ''Monday'',
      l_Time_Interval = ''08:00'', l_Speed = Num 30, l_Travel_Time = 6\<rparr>"

definition empty_holder :: holder where
  "empty_holder = \<lparr>ra_zip = None, data = None, metadata = None, report_contents = None\<rparr>"

definition weekday_stub :: "string \<Rightarrow> string" where
  "weekday_stub d = (if d = ''2021-03-01'' then ''Monday'' else ''?'')"

definition example_zip_env :: zip_env where
  "example_zip_env =
     \<lparr>path_exists = (\<lambda>p. False),
      ZipFile = (\<lambda>src.
        if src = BytesIO ''complete'' then
          Inr [(''report/'', []), (''report/data.csv'', ''D''), (''report/metadata.csv'', ''M''),
               (''report/reportContents.json'', ''R'')]
        else if src = BytesIO ''partial'' then
          Inr [(''report/'', []), (''report/data.csv'', ''D'')]
        else Inl BadZipFile),
      read_csv_data = (\<lambda>b. if b = ''D'' then Inr example_data else Inl ParserError),
      read_csv_metadata = (\<lambda>b. if b = ''M'' then Inr example_metadata else Inl ParserError),
      json_load = (\<lambda>b. if b = ''R'' then Inr example_report else Inl JSONDecodeError)\<rparr>"

definition stale_holder :: holder where
  "stale_holder =
     \<lparr>ra_zip = Some (BytesIO ''partial''), data = Some [], metadata = Some [],
      report_contents = Some \<lparr>corridors = []\<rparr>\<rparr>"

text \<open>
  The table that an archive holds under a file name: the member of that name in the
  archive's root directory, read by the given parser. It is what a private loader stores.
\<close>

definition archive_table ::
  "zip_env \<Rightarrow> zip_source \<Rightarrow> string \<Rightarrow> (string \<Rightarrow> error + 'a) \<Rightarrow> error + 'a" where
  "archive_table env src fname parse =
     (case read_member env src fname of Inl e \<Rightarrow> Inl e | Inr bytes \<Rightarrow> parse bytes)"

text \<open>
  The corridor that the loop of \<open>__create_data_agg\<close> handles last among those of a name,
  and the row it leaves: used to state what the loop has done when it ends.
\<close>

definition last_named :: "corridor list \<Rightarrow> string \<Rightarrow> corridor option" where
  "last_named cs nm = find (\<lambda>c. name c = nm) (rev cs)"

definition with_corridor :: "metadata_row list \<Rightarrow> corridor list \<Rightarrow> agg_row \<Rightarrow> agg_row" where
  "with_corridor md cs r =
     (case last_named cs (fst (agg_key r)) of
        None \<Rightarrow> r
      | Some c \<Rightarrow> r\<lparr>Corridor_Length := Some (corridor_length md c),
                     Segment_Count := Some (length (xdSegIds c))\<rparr>)"

section \<open>Properties of the corridor-report client\<close>

subsection \<open>The archive download\<close>

text \<open>
  C6 (the claim: every non-success status, also on the final archive download of
  \<open>get_report_bytes\<close>, is propagated, and no step returns the body of a failed response
  as report data). The code does otherwise on the download: for a report with one URL
  whose server answers 404 with the body \<open>Not Found\<close>, \<open>get_report_bytes\<close> returns that
  body as the archive, where \<open>get_report_data\<close> on the same response raises the HTTP error.
\<close>

theorem get_report_bytes_returns_failed_body:
  "get_report_bytes (\<lambda>u. \<lparr>status_code = 404, content = ''Not Found'', json = (None :: unit option)\<rparr>)
     \<lparr>urls = [''https://example.org/report.zip'']\<rparr> = Inr ''Not Found''
   \<and> get_report_data (\<lambda>u. \<lparr>status_code = 404, content = ''Not Found'', json = (None :: unit option)\<rparr>)
     ''r1'' = Inl (HTTPError 404)"
  by (simp add: get_report_bytes_def get_report_data_def raise_for_status_def)

subsection \<open>Polling for completion\<close>

declare wait_loop.simps [simp del]






lemma wait_for_report_completion_slow:
  "wait_for_report_completion slow_endpoint \<lparr>now = 0, sent = 0\<rparr>
     = (Inl timeout_error, \<lparr>now = 650, sent = 6\<rparr>)"
  by (simp add: wait_for_report_completion_def wait_loop.simps check_report_status_def
      slow_endpoint_def raise_for_status_def r_json_def time_sleep_def Let_def max_wait_def
      check_interval_def timeout_error_def)

section \<open>Properties of the transit API client\<close>

subsection \<open>One round of the loop\<close>

lemma make_api_loop_ok:
  "status_code (requests_get (sent w)) = 200 \<Longrightarrow>
   make_api_loop requests_get a w = (r_json (requests_get (sent w)), w\<lparr>sent := Suc (sent w)\<rparr>)"
  by (subst make_api_loop.simps) (simp add: Let_def)

lemma make_api_loop_retry:
  "status_code (requests_get (sent w)) = 429 \<Longrightarrow> a + 1 < max_attempts \<Longrightarrow>
   make_api_loop requests_get a w =
     make_api_loop requests_get (a + 1) (time_sleep 1000 (w\<lparr>sent := Suc (sent w)\<rparr>))"
  by (subst make_api_loop.simps) (simp add: Let_def)

lemma make_api_loop_last:
  "status_code (requests_get (sent w)) = 429 \<Longrightarrow> \<not> a + 1 < max_attempts \<Longrightarrow>
   make_api_loop requests_get a w = (Inl (HTTPError 429), w\<lparr>sent := Suc (sent w)\<rparr>)"
  by (subst make_api_loop.simps) (simp add: Let_def raise_for_status_def)

lemma make_api_loop_other:
  "status_code (requests_get (sent w)) \<noteq> 200 \<Longrightarrow> status_code (requests_get (sent w)) \<noteq> 429 \<Longrightarrow>
   make_api_loop requests_get a w =
     (Inl (if 400 \<le> status_code (requests_get (sent w)) \<and> status_code (requests_get (sent w)) < 600
           then HTTPError (status_code (requests_get (sent w)))
           else ValueError (''Unhandeled response status code: ''
                   @ str_nat (status_code (requests_get (sent w))))),
      w\<lparr>sent := Suc (sent w)\<rparr>)"
  by (subst make_api_loop.simps) (simp add: Let_def raise_for_status_def)

lemma make_api_loop_run:
  "make_api_loop requests_get a w = (res, w') \<Longrightarrow> a < max_attempts \<Longrightarrow>
   sent w = p0 + a \<Longrightarrow> now w = t0 + 1000 * a \<Longrightarrow>
   (\<forall>k<a. status_code (requests_get (p0 + k)) = 429) \<Longrightarrow>
   (\<exists>n. sent w' = p0 + n \<and> 1 \<le> n \<and> n \<le> max_attempts \<and>
      (\<forall>k<n - 1. status_code (requests_get (p0 + k)) = 429) \<and>
      now w' = t0 + 1000 * (n - 1) \<and>
      (let r = requests_get (p0 + (n - 1)); c = status_code r
       in (c = 200 \<longrightarrow> res = r_json r) \<and>
          (c = 429 \<longrightarrow> n = max_attempts \<and> res = Inl (HTTPError 429)) \<and>
          (c \<noteq> 200 \<and> c \<noteq> 429 \<longrightarrow>
             res = Inl (if 400 \<le> c \<and> c < 600 then HTTPError c
                        else ValueError (''Unhandeled response status code: '' @ str_nat c)))))"
proof (induction "max_attempts - a" arbitrary: a w)
  case 0
  then show ?case by simp
next
  case (Suc d)
  let ?r = "requests_get (sent w)"
  let ?w1 = "w\<lparr>sent := Suc (sent w)\<rparr>"
  have pre: "\<forall>k<Suc a - 1. status_code (requests_get (p0 + k)) = 429"
    using Suc.prems(5) by simp
  have r: "requests_get (p0 + (Suc a - 1)) = ?r" using Suc.prems(3) by simp
  have fin: "sent ?w1 = p0 + Suc a" "now ?w1 = t0 + 1000 * (Suc a - 1)" "Suc a \<le> max_attempts"
    using Suc.prems(2-4) by simp_all
  consider (ok) "status_code ?r = 200"
    | (retry) "status_code ?r = 429" "a + 1 < max_attempts"
    | (last) "status_code ?r = 429" "\<not> a + 1 < max_attempts"
    | (other) "status_code ?r \<noteq> 200" "status_code ?r \<noteq> 429"
    by blast
  then show ?case
  proof cases
    case ok
    from Suc.prems(1) ok make_api_loop_ok[of requests_get w a]
    have "res = r_json ?r" "w' = ?w1" by simp_all
    then show ?thesis
      using fin pre ok r by (intro exI[of _ "Suc a"]) (simp add: Let_def)
  next
    case retry
    have run: "make_api_loop requests_get (a + 1) (time_sleep 1000 ?w1) = (res, w')"
      using Suc.prems(1) retry make_api_loop_retry[of requests_get w a] by simp
    have all: "\<forall>k<a + 1. status_code (requests_get (p0 + k)) = 429"
      using Suc.prems(3,5) retry(1) by (auto simp: less_Suc_eq)
    have d: "d = max_attempts - (a + 1)" using Suc.hyps(2) by simp
    show ?thesis
      by (rule Suc.hyps(1)[OF d run retry(2) _ _ all])
        (use Suc.prems(3,4) in \<open>simp_all add: time_sleep_def\<close>)
  next
    case last
    from Suc.prems(1) last make_api_loop_last[of requests_get w a]
    have "res = Inl (HTTPError 429)" "w' = ?w1" by simp_all
    moreover have "Suc a = max_attempts" using last(2) Suc.prems(2) by simp
    ultimately show ?thesis
      using fin pre last(1) r by (intro exI[of _ "Suc a"]) (simp add: Let_def)
  next
    case other
    from Suc.prems(1) other make_api_loop_other[of requests_get w a]
    have "res = Inl (if 400 \<le> status_code ?r \<and> status_code ?r < 600
          then HTTPError (status_code ?r)
          else ValueError (''Unhandeled response status code: '' @ str_nat (status_code ?r)))"
        "w' = ?w1"
      by simp_all
    then show ?thesis
      using fin pre other r by (intro exI[of _ "Suc a"]) (simp add: Let_def)
  qed
qed

subsection \<open>Retry on 429 only\<close>

text \<open>
  C9. A call of \<open>make_api_call\<close> sends \<open>n\<close> requests with \<open>1 \<le> n \<le> max_attempts = 10\<close>.
  Every request but the last was answered 429 and was followed by one sleep of 1000
  seconds, and nothing else advanced the clock. The last response decides the result:
  a 200 returns its JSON; a 429 is the last one only at the tenth attempt, and then the
  HTTP error 429 is raised; any other code is raised at once, as an HTTP error for the
  codes 400 to 599 and as a \<open>ValueError\<close> otherwise.
\<close>

theorem make_api_call_retries:
  assumes run: "make_api_call requests_get w = (res, w')"
  shows "\<exists>n. sent w' = sent w + n \<and> 1 \<le> n \<and> n \<le> max_attempts \<and>
      (\<forall>k<n - 1. status_code (requests_get (sent w + k)) = 429) \<and>
      now w' = now w + 1000 * (n - 1) \<and>
      (let r = requests_get (sent w + (n - 1)); c = status_code r
       in (c = 200 \<longrightarrow> res = r_json r) \<and>
          (c = 429 \<longrightarrow> n = max_attempts \<and> res = Inl (HTTPError 429)) \<and>
          (c \<noteq> 200 \<and> c \<noteq> 429 \<longrightarrow>
             res = Inl (if 400 \<le> c \<and> c < 600 then HTTPError c
                        else ValueError (''Unhandeled response status code: '' @ str_nat c))))"
proof -
  have loop: "make_api_loop requests_get 0 w = (res, w')"
    using run by (simp add: make_api_call_def)
  show ?thesis
    by (rule make_api_loop_run[OF loop, of "sent w" "now w"]) (simp_all add: max_attempts_def)
qed

text \<open>At the always busy server: ten requests, nine sleeps, then the HTTP error 429.\<close>

theorem make_api_call_retries_witness:
  "make_api_call always_429 \<lparr>now = 0, sent = 0\<rparr> = (Inl (HTTPError 429), \<lparr>now = 9000, sent = 10\<rparr>)"
proof -
  obtain res w' where run: "make_api_call always_429 \<lparr>now = 0, sent = 0\<rparr> = (res, w')"
    by (cases "make_api_call always_429 \<lparr>now = 0, sent = 0\<rparr>")
  from make_api_call_retries[OF run]
  obtain n where n: "sent w' = n" "now w' = 1000 * (n - 1)" "n = max_attempts"
    "res = Inl (HTTPError 429)"
    by (auto simp: always_429_def Let_def)
  then have "w' = \<lparr>now = 9000, sent = 10\<rparr>"
    by (cases w') (simp add: max_attempts_def)
  with run n(4) show ?thesis by simp
qed

text \<open>Two 429 answers and then a 200; and a 503, which is not retried.\<close>

lemma make_api_call_busy_twice:
  "make_api_call busy_twice \<lparr>now = 0, sent = 0\<rparr> = (Inr ''{}'', \<lparr>now = 2000, sent = 3\<rparr>)"
  by (simp add: make_api_call_def make_api_loop.simps busy_twice_def Let_def max_attempts_def
      time_sleep_def r_json_def)

lemma make_api_call_server_error:
  "make_api_call (\<lambda>k. \<lparr>status_code = 503, content = [], json = (None :: string option)\<rparr>)
     \<lparr>now = 0, sent = 0\<rparr> = (Inl (HTTPError 503), \<lparr>now = 0, sent = 1\<rparr>)"
  by (simp add: make_api_call_def make_api_loop.simps Let_def raise_for_status_def)

section \<open>Properties of the transit reshaper\<close>

subsection \<open>Copies are new objects, and only copies are written\<close>

lemma deepcopy_segs_fresh:
  "deepcopy_segs memo as s = (bs, s') \<Longrightarrow> n \<le> length s \<Longrightarrow>
   (\<forall>b \<in> snd ` set memo. n \<le> b \<and> b < length s) \<Longrightarrow>
   length s \<le> length s' \<and> take (length s) s' = s \<and> (\<forall>b \<in> set bs. n \<le> b \<and> b < length s')"
proof (induction memo as s arbitrary: bs s' rule: deepcopy_segs.induct)
  case (1 memo s)
  then show ?case by simp
next
  case (2 memo a as s)
  show ?case
  proof (cases "map_of memo a")
    case None
    obtain bs1 s1 where rec: "deepcopy_segs ((a, length s) # memo) as (s @ [s ! a]) = (bs1, s1)"
      by (cases "deepcopy_segs ((a, length s) # memo) as (s @ [s ! a])")
    with None "2.prems"(1) have eq: "bs = length s # bs1" "s' = s1"
      by (simp_all add: Let_def)
    have "length (s @ [s ! a]) \<le> length s1 \<and> take (length (s @ [s ! a])) s1 = s @ [s ! a] \<and>
          (\<forall>b \<in> set bs1. n \<le> b \<and> b < length s1)"
      by (rule "2.IH"(1)[OF None refl rec]) (use "2.prems"(2,3) in auto)
    then have len: "Suc (length s) \<le> length s1" and tk: "take (Suc (length s)) s1 = s @ [s ! a]"
      and fr: "\<forall>b \<in> set bs1. n \<le> b \<and> b < length s1" by simp_all
    have "take (length s) s1 = take (length s) (take (Suc (length s)) s1)"
      by (simp add: min_def)
    also have "\<dots> = s" by (simp add: tk)
    finally show ?thesis using eq len fr "2.prems"(2) by simp
  next
    case (Some b)
    obtain bs1 s1 where rec: "deepcopy_segs memo as s = (bs1, s1)"
      by (cases "deepcopy_segs memo as s")
    with Some "2.prems"(1) have eq: "bs = b # bs1" "s' = s1" by simp_all
    have ih: "length s \<le> length s1 \<and> take (length s) s1 = s \<and>
          (\<forall>b \<in> set bs1. n \<le> b \<and> b < length s1)"
      by (rule "2.IH"(2)[OF Some rec "2.prems"(2,3)])
    have "b \<in> snd ` set memo" using Some by (metis map_of_SomeD snd_conv image_eqI)
    then have "n \<le> b \<and> b < length s" using "2.prems"(3) by blast
    then show ?thesis using eq ih by auto
  qed
qed

lemma loop_body_frame:
  "loop_body i seg s = (res, s') \<Longrightarrow> n \<le> seg \<Longrightarrow>
   length s' = length s \<and> take n s' = take n s"
  by (auto simp: loop_body_def Let_def split: sum.splits prod.splits)

lemma build_features_frame:
  "build_features i segs s = (res, s') \<Longrightarrow> (\<forall>b \<in> set segs. n \<le> b) \<Longrightarrow>
   length s' = length s \<and> take n s' = take n s"
proof (induction i segs s arbitrary: res s' rule: build_features.induct)
  case (1 i s)
  then show ?case by simp
next
  case (2 i seg segs s)
  from "2.prems"(2) have n: "n \<le> seg" and rest: "\<forall>b \<in> set segs. n \<le> b" by simp_all
  obtain r1 s1 where body: "loop_body i seg s = (r1, s1)" by (cases "loop_body i seg s")
  note fr1 = loop_body_frame[OF body n]
  show ?case
  proof (cases r1)
    case (Inl e)
    with body "2.prems"(1) fr1 show ?thesis by simp
  next
    case (Inr f)
    obtain r2 s2 where rec: "build_features (i + 1) segs s1 = (r2, s2)"
      by (cases "build_features (i + 1) segs s1")
    have "length s2 = length s1 \<and> take n s2 = take n s1"
      by (rule "2.IH"[OF body[symmetric] Inr rec rest])
    moreover have "s' = s2" using "2.prems"(1) body Inr rec by (auto split: sum.splits)
    ultimately show ?thesis using fr1 by simp
  qed
qed

subsection \<open>The input is not modified\<close>

text \<open>
  C10. \<open>speed_map_segs_to_geojson\<close> leaves every dict that existed before the call as it
  was, whether it returns or raises: the store after the call starts with the store
  before it, and each dict of the input list is unchanged (so it keeps its \<open>fromStop\<close>,
  \<open>toStop\<close> and \<open>pathLocs\<close> entries and gets no \<open>order\<close> key).
\<close>

theorem speed_map_segs_to_geojson_frame:
  assumes "\<forall>a \<in> set seg_list. a < length s"
    and "speed_map_segs_to_geojson seg_list s = (res, s')"
  shows "length s \<le> length s' \<and> take (length s) s' = s \<and> (\<forall>a \<in> set seg_list. s' ! a = s ! a)"
proof -
  obtain cp s1 where cp: "deepcopy_segs [] seg_list s = (cp, s1)"
    by (cases "deepcopy_segs [] seg_list s")
  from deepcopy_segs_fresh[OF cp, of "length s"]
  have d: "length s \<le> length s1" "take (length s) s1 = s" "\<forall>b \<in> set cp. length s \<le> b"
    by auto
  from assms(2) cp have "build_features 0 cp s1 = (res, s')"
    by (simp add: speed_map_segs_to_geojson_def)
  from build_features_frame[OF this d(3)] d(1,2)
  have fr: "length s \<le> length s'" "take (length s) s' = s" by simp_all
  have "s' ! a = s ! a" if "a \<in> set seg_list" for a
  proof -
    from that assms(1) have "a < length s" by blast
    then have "take (length s) s' ! a = s' ! a" by simp
    with fr(2) show ?thesis by simp
  qed
  with fr show ?thesis by blast
qed

theorem speed_map_segs_to_geojson_frame_witness:
  "take (length [seg0]) (snd (speed_map_segs_to_geojson [0] [seg0])) = [seg0]
   \<and> map_of (snd (speed_map_segs_to_geojson [0] [seg0]) ! 0) ''fromStop'' = Some (JStr ''A'')
   \<and> map_of (snd (speed_map_segs_to_geojson [0] [seg0]) ! 0) ''order'' = None"
  using speed_map_segs_to_geojson_frame[of "[0]" "[seg0]"
      "fst (speed_map_segs_to_geojson [0] [seg0])" "snd (speed_map_segs_to_geojson [0] [seg0])"]
  by (simp add: seg0_def)

text \<open>
  The deletions and the new key are there, on the copy at address 1; and a list that holds
  the same dict twice fails on the second round, where the copy has lost its keys.
\<close>

lemma speed_map_segs_to_geojson_example:
  "speed_map_segs_to_geojson [0] [seg0] =
     (Inr [\<lparr>coordinates = [(JNum (-122), JNum 37), (JNum (-121), JNum 38)], properties = 1\<rparr>],
      [seg0, [(''speed'', JNum 12), (''order'', JNum 0)]])"
  by (simp add: speed_map_segs_to_geojson_def loop_body_def seg0_def dict_del_def dict_set_def
      dict_pop_def Let_def)

lemma speed_map_segs_to_geojson_aliased:
  "speed_map_segs_to_geojson [0, 0] [seg0] =
     (Inl (KeyError ''fromStop''), [seg0, [(''speed'', JNum 12), (''order'', JNum 0)]])"
  by (simp add: speed_map_segs_to_geojson_def loop_body_def seg0_def dict_del_def dict_set_def
      dict_pop_def Let_def)

section \<open>Properties of the volume reshaper\<close>

subsection \<open>The timestamp of an hour column\<close>

lemma hours_parsed:
  "map (\<lambda>h. parse_hhmmss (take 4 h @ ''01'')) time_cols = map (\<lambda>h. Some (h, 0, 1)) [0..<24]"
  by (simp add: time_cols_def parse_hhmmss_def digit_val_def upt_rec)

lemma length_time_cols: "length time_cols = 24"
  by (simp add: time_cols_def)

lemma hour_parsed:
  assumes "i < 24"
  shows "parse_hhmmss (take 4 (time_cols ! i) @ ''01'') = Some (i, 0, 1)"
proof -
  have "map (\<lambda>h. parse_hhmmss (take 4 h @ ''01'')) time_cols ! i
        = map (\<lambda>h. Some (h, 0, 1)) [0..<24] ! i"
    by (simp only: hours_parsed)
  with assms show ?thesis by (simp add: length_time_cols)
qed

lemma hour_timestamp_value:
  "i < 24 \<Longrightarrow> hour_timestamp (Some d) (time_cols ! i) = Some (d, i, 0, 1)"
  by (simp add: hour_timestamp_def to_datetime_def hour_parsed)

lemma epoch_seconds_hour: "epoch_seconds (d, i, 0, 1) = d * 86400 + int i * 3600 + 1"
  by (simp add: epoch_seconds_def)

lemma hour_order:
  assumes "i < 24" "j < 24"
  shows "(d * 86400 + int i * 3600 + 1 < d' * 86400 + int j * 3600 + 1) \<longleftrightarrow> d < d' \<or> d = d' \<and> i < j"
  using assms by auto

text \<open>
  C5. On every date \<open>D\<close> the row of \<open>0000-0100\<close> gets a timestamp that is strictly after the
  one of \<open>2300-2400\<close> on the date before and strictly before the one of \<open>0100-0200\<close> on
  \<open>D\<close>. In general the timestamps of two hour columns on two dates exist, are ordered as
  the pairs (date, hour) are, and are equal only for the same date and hour.
\<close>

theorem hour_timestamps_ordered:
  "(\<exists>t0 t1 t23.
      hour_timestamp (Some D) ''0000-0100'' = Some t0 \<and>
      hour_timestamp (Some D) ''0100-0200'' = Some t1 \<and>
      hour_timestamp (Some (D - 1)) ''2300-2400'' = Some t23 \<and>
      epoch_seconds t23 < epoch_seconds t0 \<and> epoch_seconds t0 < epoch_seconds t1)
   \<and> (\<forall>i<24. \<forall>j<24. \<exists>t t'.
        hour_timestamp (Some d) (time_cols ! i) = Some t \<and>
        hour_timestamp (Some d') (time_cols ! j) = Some t' \<and>
        (epoch_seconds t < epoch_seconds t' \<longleftrightarrow> d < d' \<or> d = d' \<and> i < j) \<and>
        (t = t' \<longleftrightarrow> d = d' \<and> i = j))"
proof
  have "hour_timestamp (Some D) (time_cols ! 0) = Some (D, 0, 0, 1)"
    and "hour_timestamp (Some D) (time_cols ! 1) = Some (D, 1, 0, 1)"
    and "hour_timestamp (Some (D - 1)) (time_cols ! 23) = Some (D - 1, 23, 0, 1)"
    by (simp_all only: hour_timestamp_value)
  then have "hour_timestamp (Some D) ''0000-0100'' = Some (D, 0, 0, 1)"
    and "hour_timestamp (Some D) ''0100-0200'' = Some (D, 1, 0, 1)"
    and "hour_timestamp (Some (D - 1)) ''2300-2400'' = Some (D - 1, 23, 0, 1)"
    by (simp_all add: time_cols_def)
  then show "\<exists>t0 t1 t23.
      hour_timestamp (Some D) ''0000-0100'' = Some t0 \<and>
      hour_timestamp (Some D) ''0100-0200'' = Some t1 \<and>
      hour_timestamp (Some (D - 1)) ''2300-2400'' = Some t23 \<and>
      epoch_seconds t23 < epoch_seconds t0 \<and> epoch_seconds t0 < epoch_seconds t1"
    by (simp add: epoch_seconds_def)
next
  show "\<forall>i<24. \<forall>j<24. \<exists>t t'.
        hour_timestamp (Some d) (time_cols ! i) = Some t \<and>
        hour_timestamp (Some d') (time_cols ! j) = Some t' \<and>
        (epoch_seconds t < epoch_seconds t' \<longleftrightarrow> d < d' \<or> d = d' \<and> i < j) \<and>
        (t = t' \<longleftrightarrow> d = d' \<and> i = j)"
  proof (intro allI impI)
    fix i j :: nat
    assume ij: "i < 24" "j < 24"
    show "\<exists>t t'.
        hour_timestamp (Some d) (time_cols ! i) = Some t \<and>
        hour_timestamp (Some d') (time_cols ! j) = Some t' \<and>
        (epoch_seconds t < epoch_seconds t' \<longleftrightarrow> d < d' \<or> d = d' \<and> i < j) \<and>
        (t = t' \<longleftrightarrow> d = d' \<and> i = j)"
    proof -
      have a: "hour_timestamp (Some d) (time_cols ! i) = Some (d, i, 0, 1)"
        and b: "hour_timestamp (Some d') (time_cols ! j) = Some (d', j, 0, 1)"
        using ij by (simp_all add: hour_timestamp_value)
      have c: "epoch_seconds (d, i, 0, 1) < epoch_seconds (d', j, 0, 1) \<longleftrightarrow> d < d' \<or> d = d' \<and> i < j"
        using hour_order[OF ij, of d d'] by (simp only: epoch_seconds_hour)
      have e: "(d, i, 0::nat, 1::nat) = (d', j, 0, 1) \<longleftrightarrow> d = d' \<and> i = j" by simp
      from a b c e show ?thesis by blast
    qed
  qed
qed

theorem hour_timestamps_ordered_witness:
  "\<exists>t t'. hour_timestamp (Some 18262) (time_cols ! 0) = Some t \<and>
          hour_timestamp (Some 18261) (time_cols ! 23) = Some t' \<and>
          \<not> epoch_seconds t < epoch_seconds t' \<and> t \<noteq> t'"
proof -
  have "\<forall>i<24. \<forall>j<24. \<exists>t t'.
        hour_timestamp (Some 18262) (time_cols ! i) = Some t \<and>
        hour_timestamp (Some 18261) (time_cols ! j) = Some t' \<and>
        (epoch_seconds t < epoch_seconds t' \<longleftrightarrow> (18262::int) < 18261 \<or> (18262::int) = 18261 \<and> i < j) \<and>
        (t = t' \<longleftrightarrow> (18262::int) = 18261 \<and> i = j)"
    using hour_timestamps_ordered[of 0 18262 18261] by blast
  then have "\<exists>t t'.
        hour_timestamp (Some 18262) (time_cols ! 0) = Some t \<and>
        hour_timestamp (Some 18261) (time_cols ! 23) = Some t' \<and>
        (epoch_seconds t < epoch_seconds t' \<longleftrightarrow> (18262::int) < 18261 \<or> (18262::int) = 18261 \<and> (0::nat) < 23) \<and>
        (t = t' \<longleftrightarrow> (18262::int) = 18261 \<and> (0::nat) = 23)"
    by simp
  then show ?thesis by simp
qed

subsection \<open>Row counts of the four modes\<close>

lemma those_map_Some:
  "(\<And>x. x \<in> set xs \<Longrightarrow> f x = Some (g x)) \<Longrightarrow> those (map f xs) = Some (map g xs)"
  by (induction xs) simp_all

lemma set_map_filter: "set (List.map_filter f xs) = {k. Some k \<in> f ` set xs}"
  by (induction xs) (auto simp: List.map_filter_def image_iff)

lemma length_groupby_sum:
  "length (groupby_sum by_key col rows) = card {k. Some k \<in> by_key ` set rows}"
  by (simp add: groupby_sum_def length_remdups_card_conv set_map_filter)

lemma length_groupby_sum_total:
  "length (groupby_sum (\<lambda>r. Some (f r)) col rows) = card (f ` set rows)"
proof -
  have "{k. Some k \<in> (\<lambda>r. Some (f r)) ` set rows} = f ` set rows" by auto
  then show ?thesis by (simp only: length_groupby_sum)
qed

lemma time_cols_nth: "h \<in> set time_cols \<Longrightarrow> \<exists>i<24. h = time_cols ! i"
  by (metis in_set_conv_nth length_time_cols)

lemma add_timestamp_stamp:
  assumes "m_Date r \<noteq> None" "Hour r \<in> set time_cols"
  shows "add_timestamp r = Some (stamp r)"
proof -
  obtain d where d: "m_Date r = Some d" using assms(1) by (cases "m_Date r") auto
  obtain i where i: "i < 24" "Hour r = time_cols ! i" using time_cols_nth[OF assms(2)] by blast
  show ?thesis
    by (simp add: add_timestamp_def stamp_def d i hour_timestamp_value hour_parsed)
qed

lemma set_melt:
  "set (melt rows) =
     (\<lambda>(h, r). \<lparr>m_Date = Date r, m_Day = Day r, m_Lane_ID = Lane_ID r, Hour = h,
                 Volume = hour_volume r h\<rparr>) ` (set time_cols \<times> set rows)"
  by (auto simp: melt_def)

lemma length_melt: "length (melt rows) = 24 * length rows"
  by (simp add: melt_def length_concat comp_def sum_list_triv length_time_cols)

lemma melt_empty: "melt rows = [] \<longleftrightarrow> rows = []"
proof -
  have "melt rows = [] \<longleftrightarrow> length (melt rows) = 0" by simp
  also have "\<dots> \<longleftrightarrow> rows = []" by (simp only: length_melt) simp
  finally show ?thesis .
qed

lemma stamped_melt:
  assumes "\<forall>r \<in> set rows. Date r \<noteq> None"
  shows "those (map add_timestamp (melt rows)) = Some (map stamp (melt rows))"
proof (rule those_map_Some)
  fix m assume "m \<in> set (melt rows)"
  then obtain h r where "h \<in> set time_cols" "r \<in> set rows"
    "m = \<lparr>m_Date = Date r, m_Day = Day r, m_Lane_ID = Lane_ID r, Hour = h, Volume = hour_volume r h\<rparr>"
    by (auto simp: set_melt)
  with assms show "add_timestamp m = Some (stamp m)"
    by (intro add_timestamp_stamp) auto
qed

lemma hour_of_stamp:
  "h \<in> set time_cols \<Longrightarrow> fst (the (parse_hhmmss (take 4 h @ ''01''))) < 24"
  using time_cols_nth[of h] by (auto simp: hour_parsed)

lemma card_hours:
  "card ((\<lambda>h. fst (the (parse_hhmmss (take 4 h @ ''01'')))) ` set time_cols) = 24"
proof -
  have "(\<lambda>h. fst (the (parse_hhmmss (take 4 h @ ''01'')))) ` set time_cols
        = set (map (\<lambda>x. fst (the x)) (map (\<lambda>h. parse_hhmmss (take 4 h @ ''01'')) time_cols))"
    by (simp add: image_image del: hours_parsed)
  also have "\<dots> = set [0..<24]"
    by (simp only: hours_parsed) (simp add: comp_def)
  finally show ?thesis by simp
qed

lemma timestamps_of_melt:
  "Timestamp ` set (map stamp (melt rows)) =
     (\<lambda>(d, i). (d, i, 0, 1)) `
       (((\<lambda>r. the (Date r)) ` set rows)
        \<times> ((\<lambda>h. fst (the (parse_hhmmss (take 4 h @ ''01'')))) ` set time_cols))"
  by (auto simp: set_melt stamp_def melted_row.extend_def image_iff)

lemma day_lanes_of_melt:
  assumes "\<forall>r \<in> set rows. Lane_ID r \<noteq> None"
  shows "{k. Some k \<in> (\<lambda>r. map_option (\<lambda>lane. (fst (Timestamp r), lane)) (m_Lane_ID r))
                         ` set (map stamp (melt rows))} =
         (\<lambda>r. (the (Date r), the (Lane_ID r))) ` set rows"
proof -
  have h: "''0000-0100'' \<in> set time_cols" by (simp add: time_cols_def)
  have lane: "r \<in> set rows \<Longrightarrow> \<exists>l. Lane_ID r = Some l" for r
    using assms by (cases "Lane_ID r") auto
  show ?thesis
  proof (intro set_eqI iffI)
    fix k
    assume "k \<in> {k. Some k \<in> (\<lambda>r. map_option (\<lambda>lane. (fst (Timestamp r), lane)) (m_Lane_ID r))
                         ` set (map stamp (melt rows))}"
    then obtain h' r where r: "r \<in> set rows" "h' \<in> set time_cols"
      and k: "Some k = map_option (\<lambda>lane. (the (Date r), lane)) (Lane_ID r)"
      by (auto simp: set_melt stamp_def melted_row.extend_def)
    from lane[OF r(1)] obtain l where "Lane_ID r = Some l" by blast
    with k have "k = (the (Date r), the (Lane_ID r))" by simp
    with r(1) show "k \<in> (\<lambda>r. (the (Date r), the (Lane_ID r))) ` set rows" by blast
  next
    fix k
    assume "k \<in> (\<lambda>r. (the (Date r), the (Lane_ID r))) ` set rows"
    then obtain r where r: "r \<in> set rows" and k: "k = (the (Date r), the (Lane_ID r))" by blast
    from lane[OF r] obtain l where l: "Lane_ID r = Some l" by blast
    let ?m = "stamp \<lparr>m_Date = Date r, m_Day = Day r, m_Lane_ID = Lane_ID r,
                      Hour = ''0000-0100'', Volume = hour_volume r ''0000-0100''\<rparr>"
    have "(''0000-0100'', r) \<in> set time_cols \<times> set rows" using r h by simp
    then have "(\<lambda>(h, r). \<lparr>m_Date = Date r, m_Day = Day r, m_Lane_ID = Lane_ID r, Hour = h,
                 Volume = hour_volume r h\<rparr>) (''0000-0100'', r) \<in> set (melt rows)"
      unfolding set_melt by (rule imageI)
    then have mem: "?m \<in> set (map stamp (melt rows))" by simp
    have eq: "Some k = map_option (\<lambda>lane. (fst (Timestamp ?m), lane)) (m_Lane_ID ?m)"
      by (simp add: stamp_def melted_row.extend_def k l)
    have "Some k \<in> (\<lambda>r. map_option (\<lambda>lane. (fst (Timestamp r), lane)) (m_Lane_ID r))
                         ` set (map stamp (melt rows))"
      using eq mem by (rule image_eqI)
    then show "k \<in> {k. Some k \<in> (\<lambda>r. map_option (\<lambda>lane. (fst (Timestamp r), lane)) (m_Lane_ID r))
                         ` set (map stamp (melt rows))}"
      by simp
  qed
qed

lemma days_of_melt:
  "(\<lambda>r. fst (Timestamp r)) ` set (map stamp (melt rows)) = (\<lambda>r. the (Date r)) ` set rows"
proof -
  have "''0000-0100'' \<in> set time_cols" by (simp add: time_cols_def)
  then show ?thesis
    by (auto simp: set_melt stamp_def melted_row.extend_def image_iff)
qed

text \<open>
  C4. For a sheet in which each (date, lane) pair occurs at most once among the dated rows,
  each dated row names its lane, and each of the \<open>L\<close> lanes occurs on each of the \<open>D\<close>
  dates, \<open>ctvr_to_long\<close> returns \<open>24 * L * D\<close> rows without a flag and \<open>L * D\<close> rows with
  \<open>sum_hours\<close> only, and, when the sheet has a dated row (\<open>0 < D\<close>), \<open>24 * D\<close> rows with
  \<open>sum_lanes\<close> only and \<open>D\<close> rows with both flags.
\<close>

theorem ctvr_to_long_row_counts:
  assumes once: "distinct (map (\<lambda>r. (Date r, Lane_ID r)) (dropna_Date sheet))"
    and each: "Date ` set (dropna_Date sheet) \<times> Lane_ID ` set (dropna_Date sheet)
               \<subseteq> (\<lambda>r. (Date r, Lane_ID r)) ` set (dropna_Date sheet)"
    and lanes: "\<forall>r \<in> set (dropna_Date sheet). Lane_ID r \<noteq> None"
    and D: "D = card (Date ` set (dropna_Date sheet))"
    and L: "L = card (Lane_ID ` set (dropna_Date sheet))"
  shows "(\<exists>t. ctvr_to_long sheet False False = Inr t \<and> n_rows t = 24 * (L * D)) \<and>
         (0 < D \<longrightarrow> (\<exists>t. ctvr_to_long sheet True False = Inr t \<and> n_rows t = 24 * D)) \<and>
         (\<exists>t. ctvr_to_long sheet False True = Inr t \<and> n_rows t = L * D) \<and>
         (0 < D \<longrightarrow> (\<exists>t. ctvr_to_long sheet True True = Inr t \<and> n_rows t = D))"
proof -
  let ?R = "dropna_Date sheet"
  let ?S = "map stamp (melt ?R)"
  let ?by_lane = "\<lambda>r. map_option (\<lambda>lane. (fst (Timestamp r), lane)) (m_Lane_ID r)"
  have dated: "\<forall>r \<in> set ?R. Date r \<noteq> None" by (simp add: dropna_Date_def)
  have st: "those (map add_timestamp (melt ?R)) = Some ?S" by (rule stamped_melt[OF dated])
  have keys: "(\<lambda>r. (Date r, Lane_ID r)) ` set ?R = Date ` set ?R \<times> Lane_ID ` set ?R"
    using each by auto
  have "length ?R = card ((\<lambda>r. (Date r, Lane_ID r)) ` set ?R)"
    using distinct_card[OF once] by simp
  then have lenR: "length ?R = L * D"
    by (simp only: keys card_cartesian_product D L mult.commute)
  have nonempty: "?S \<noteq> []" if "0 < D"
  proof
    assume "?S = []"
    then have "?R = []" by (simp add: melt_empty)
    with D that show False by simp
  qed
  have inj_the: "inj_on the (Date ` set ?R)"
  proof (rule inj_onI)
    fix a b assume ab: "a \<in> Date ` set ?R" "b \<in> Date ` set ?R" "the a = the b"
    with dated have "a \<noteq> None" "b \<noteq> None" by auto
    with ab(3) show "a = b" by (cases a; cases b) auto
  qed
  have "(\<lambda>r. the (Date r)) ` set ?R = the ` (Date ` set ?R)" by (simp add: image_image)
  then have card_days: "card ((\<lambda>r. the (Date r)) ` set ?R) = D"
    by (simp only: card_image[OF inj_the] D)
  have "inj_on (\<lambda>(d, l). (the d, the l)) ((\<lambda>r. (Date r, Lane_ID r)) ` set ?R)"
  proof (rule inj_onI)
    fix a b
    assume ab: "a \<in> (\<lambda>r. (Date r, Lane_ID r)) ` set ?R" "b \<in> (\<lambda>r. (Date r, Lane_ID r)) ` set ?R"
      "(case a of (d, l) \<Rightarrow> (the d, the l)) = (case b of (d, l) \<Rightarrow> (the d, the l))"
    obtain d1 l1 d2 l2 where a: "a = (d1, l1)" and b: "b = (d2, l2)"
      by (cases a, cases b) blast
    from ab(1) dated a have "d1 \<noteq> None" by auto
    then obtain x where x: "d1 = Some x" by (cases d1) auto
    from ab(2) dated b have "d2 \<noteq> None" by auto
    then obtain y where y: "d2 = Some y" by (cases d2) auto
    from ab(1) lanes a have "l1 \<noteq> None" by auto
    then obtain u where u: "l1 = Some u" by (cases l1) auto
    from ab(2) lanes b have "l2 \<noteq> None" by auto
    then obtain v where v: "l2 = Some v" by (cases l2) auto
    from ab(3) show "a = b" by (simp add: a b x y u v)
  qed
  moreover have "(\<lambda>r. (the (Date r), the (Lane_ID r))) ` set ?R
        = (\<lambda>(d, l). (the d, the l)) ` ((\<lambda>r. (Date r, Lane_ID r)) ` set ?R)"
    by (simp add: image_image)
  ultimately have "card ((\<lambda>r. (the (Date r), the (Lane_ID r))) ` set ?R)
        = card ((\<lambda>r. (Date r, Lane_ID r)) ` set ?R)"
    by (simp only: card_image)
  then have card_day_lanes: "card ((\<lambda>r. (the (Date r), the (Lane_ID r))) ` set ?R) = L * D"
    by (simp only: keys card_cartesian_product D L mult.commute)
  have "inj_on (\<lambda>(d :: int, i :: nat). (d, i, 0 :: nat, 1 :: nat)) A" for A
    by (auto simp: inj_on_def)
  then have card_stamps: "card (Timestamp ` set ?S) = D * 24"
    by (simp only: timestamps_of_melt card_image card_cartesian_product card_days card_hours)
  have "ctvr_to_long sheet False False
          = Inr (Unaggregated (map (\<lambda>r. (Timestamp r, m_Lane_ID r, Volume r)) ?S))"
    by (simp add: ctvr_to_long_def st)
  moreover have "n_rows (Unaggregated (map (\<lambda>r. (Timestamp r, m_Lane_ID r, Volume r)) ?S))
          = 24 * (L * D)"
    by (simp add: length_melt lenR)
  ultimately have c1: "\<exists>t. ctvr_to_long sheet False False = Inr t \<and> n_rows t = 24 * (L * D)"
    by blast
  have c2: "\<exists>t. ctvr_to_long sheet True False = Inr t \<and> n_rows t = 24 * D" if "0 < D"
  proof -
    have "ctvr_to_long sheet True False
            = Inr (Lanes_summed (groupby_sum (\<lambda>r. Some (Timestamp r)) Volume ?S))"
      using nonempty[OF that] by (simp add: ctvr_to_long_def st)
    moreover have "n_rows (Lanes_summed (groupby_sum (\<lambda>r. Some (Timestamp r)) Volume ?S)) = 24 * D"
      using card_stamps by (simp only: n_rows.simps length_groupby_sum_total mult.commute)
    ultimately show ?thesis by blast
  qed
  have "ctvr_to_long sheet False True = Inr (Hours_summed (groupby_sum ?by_lane Volume ?S))"
    by (simp add: ctvr_to_long_def st)
  moreover have "n_rows (Hours_summed (groupby_sum ?by_lane Volume ?S)) = L * D"
    using card_day_lanes by (simp only: n_rows.simps length_groupby_sum day_lanes_of_melt[OF lanes])
  ultimately have c3: "\<exists>t. ctvr_to_long sheet False True = Inr t \<and> n_rows t = L * D"
    by blast
  have c4: "\<exists>t. ctvr_to_long sheet True True = Inr t \<and> n_rows t = D" if "0 < D"
  proof -
    have "ctvr_to_long sheet True True
            = Inr (All_summed (groupby_sum (\<lambda>r. Some (fst (Timestamp r))) Volume ?S))"
      using nonempty[OF that] by (simp add: ctvr_to_long_def st)
    moreover have "n_rows (All_summed (groupby_sum (\<lambda>r. Some (fst (Timestamp r))) Volume ?S)) = D"
      using card_days by (simp only: n_rows.simps length_groupby_sum_total days_of_melt)
    ultimately show ?thesis by blast
  qed
  from c1 c2 c3 c4 show ?thesis by blast
qed

theorem ctvr_to_long_row_counts_witness:
  "(\<exists>t. ctvr_to_long sheet2 False False = Inr t \<and> n_rows t = 144) \<and>
   (\<exists>t. ctvr_to_long sheet2 True False = Inr t \<and> n_rows t = 72) \<and>
   (\<exists>t. ctvr_to_long sheet2 False True = Inr t \<and> n_rows t = 6) \<and>
   (\<exists>t. ctvr_to_long sheet2 True True = Inr t \<and> n_rows t = 3)"
proof -
  have R: "dropna_Date sheet2 = butlast sheet2"
    by (simp add: sheet2_def dropna_Date_def)
  have dates: "Date ` set (butlast sheet2) = {Some 18262, Some 18263, Some 18264}"
    by (auto simp: sheet2_def)
  have lanes: "Lane_ID ` set (butlast sheet2) = {Some ''1'', Some ''2''}"
    by (auto simp: sheet2_def)
  have once: "distinct (map (\<lambda>r. (Date r, Lane_ID r)) (dropna_Date sheet2))"
    by (simp add: R) (simp add: sheet2_def)
  have each: "Date ` set (dropna_Date sheet2) \<times> Lane_ID ` set (dropna_Date sheet2)
               \<subseteq> (\<lambda>r. (Date r, Lane_ID r)) ` set (dropna_Date sheet2)"
    by (simp only: R dates lanes) (simp add: sheet2_def)
  have named: "\<forall>r \<in> set (dropna_Date sheet2). Lane_ID r \<noteq> None"
    by (simp only: R) (simp add: sheet2_def)
  have D: "(3::nat) = card (Date ` set (dropna_Date sheet2))"
    by (simp only: R dates) simp
  have L: "(2::nat) = card (Lane_ID ` set (dropna_Date sheet2))"
    by (simp only: R lanes) simp
  from ctvr_to_long_row_counts[OF once each named D L] show ?thesis by simp
qed

text \<open>One day with two lanes: the daily total, and the hourly totals of the two lanes.\<close>

lemma ctvr_to_long_example:
  "ctvr_to_long (take 2 sheet2) True True = Inr (All_summed [(18262, 720)])"
  by (simp add: ctvr_to_long_def sheet2_def dropna_Date_def melt_def time_cols_def add_timestamp_def
        hour_timestamp_def to_datetime_def parse_hhmmss_def digit_val_def melted_row.extend_def
        groupby_sum_def nansum_def List.map_filter_def)

text \<open>
  A sheet without a dated row: nothing to reshape without a flag and with \<open>sum_hours\<close> only,
  and \<open>KeyError\<close> in the two modes that select \<open>Volume\<close> after the sum.
\<close>

lemma ctvr_to_long_no_dated_row:
  assumes "dropna_Date sheet = []"
  shows "ctvr_to_long sheet False False = Inr (Unaggregated [])"
    and "ctvr_to_long sheet True False = Inl (KeyError ''Volume'')"
    and "ctvr_to_long sheet False True = Inr (Hours_summed [])"
    and "ctvr_to_long sheet True True = Inl (KeyError ''Volume'')"
proof -
  have "melt (dropna_Date sheet) = []" using assms by (simp add: melt_empty)
  then show "ctvr_to_long sheet False False = Inr (Unaggregated [])"
    and "ctvr_to_long sheet True False = Inl (KeyError ''Volume'')"
    and "ctvr_to_long sheet False True = Inr (Hours_summed [])"
    and "ctvr_to_long sheet True True = Inl (KeyError ''Volume'')"
    by (simp_all add: ctvr_to_long_def groupby_sum_def List.map_filter_def)
qed

text \<open>
  A dated row without a lane id is a row of the long table and no group of the sum by date
  and lane.
\<close>

lemma ctvr_to_long_blank_lane:
  "n_rows (projr (ctvr_to_long [sheet2 ! 0, (sheet2 ! 1)\<lparr>Lane_ID := None\<rparr>] False False)) = 48 \<and>
   ctvr_to_long [sheet2 ! 0, (sheet2 ! 1)\<lparr>Lane_ID := None\<rparr>] False True
     = Inr (Hours_summed [((18262, ''1''), 240)])"
  by (simp add: ctvr_to_long_def sheet2_def dropna_Date_def melt_def time_cols_def add_timestamp_def
        hour_timestamp_def to_datetime_def parse_hhmmss_def digit_val_def melted_row.extend_def
        groupby_sum_def nansum_def List.map_filter_def)

section \<open>Properties of the corridor aggregator\<close>

subsection \<open>Opening an archive\<close>

lemma load_data_result:
  "ra_zip self = Some src \<Longrightarrow>
   load_data env self =
     (case archive_table env src ''data.csv'' (read_csv_data env) of
        Inl e \<Rightarrow> (Inl e, self)
      | Inr d \<Rightarrow> (Inr (), self\<lparr>data := Some d\<rparr>))"
  by (simp add: load_data_def open_member_def archive_table_def split: sum.splits)

lemma load_metadata_result:
  "ra_zip self = Some src \<Longrightarrow>
   load_metadata env self =
     (case archive_table env src ''metadata.csv'' (read_csv_metadata env) of
        Inl e \<Rightarrow> (Inl e, self)
      | Inr m \<Rightarrow> (Inr (), self\<lparr>metadata := Some m\<rparr>))"
  by (simp add: load_metadata_def open_member_def archive_table_def split: sum.splits)

lemma load_report_contents_result:
  "ra_zip self = Some src \<Longrightarrow>
   load_report_contents env self =
     (case archive_table env src ''reportContents.json'' (json_load env) of
        Inl e \<Rightarrow> (Inl e, self)
      | Inr r \<Rightarrow> (Inr (), self\<lparr>report_contents := Some r\<rparr>))"
  by (simp add: load_report_contents_def open_member_def archive_table_def split: sum.splits)

lemma except_clauses_holder [simp]: "snd (except_clauses e self) = self"
  by (cases e) simp_all

lemma except_clauses_fst: "fst (except_clauses e self) = fst (except_clauses e self0)"
  by (cases e) simp_all

lemma except_clauses_fails:
  "fst (except_clauses e self) \<noteq> Inr None"
  by (cases e) simp_all

lemma try_loads_data_fails:
  assumes src: "ra_zip self = Some src" and run: "try_loads env self = (res, self')"
    and a: "archive_table env src ''data.csv'' (read_csv_data env) = Inl e"
  shows "res = fst (except_clauses e self) \<and> self' = self"
proof -
  from run a have "except_clauses e self = (res, self')"
    by (simp add: try_loads_def load_data_result[OF src])
  then have "fst (except_clauses e self) = res" "snd (except_clauses e self) = self'"
    by simp_all
  then show ?thesis by simp
qed

lemma try_loads_metadata_fails:
  assumes src: "ra_zip self = Some src" and run: "try_loads env self = (res, self')"
    and a: "archive_table env src ''data.csv'' (read_csv_data env) = Inr d"
      "archive_table env src ''metadata.csv'' (read_csv_metadata env) = Inl e"
  shows "res = fst (except_clauses e self) \<and> self' = self\<lparr>data := Some d\<rparr>"
proof -
  have s1: "ra_zip (self\<lparr>data := Some d\<rparr>) = Some src" using src by simp
  from run a have "except_clauses e (self\<lparr>data := Some d\<rparr>) = (res, self')"
    by (simp add: try_loads_def load_data_result[OF src] load_metadata_result[OF s1])
  then have "fst (except_clauses e (self\<lparr>data := Some d\<rparr>)) = res"
    "snd (except_clauses e (self\<lparr>data := Some d\<rparr>)) = self'"
    by simp_all
  then show ?thesis using except_clauses_fst[of e "self\<lparr>data := Some d\<rparr>" self] by simp
qed

lemma try_loads_report_fails:
  assumes src: "ra_zip self = Some src" and run: "try_loads env self = (res, self')"
    and a: "archive_table env src ''data.csv'' (read_csv_data env) = Inr d"
      "archive_table env src ''metadata.csv'' (read_csv_metadata env) = Inr m"
      "archive_table env src ''reportContents.json'' (json_load env) = Inl e"
  shows "res = fst (except_clauses e self) \<and> self' = self\<lparr>data := Some d, metadata := Some m\<rparr>"
proof -
  let ?s2 = "self\<lparr>data := Some d, metadata := Some m\<rparr>"
  have s1: "ra_zip (self\<lparr>data := Some d\<rparr>) = Some src" using src by simp
  have s2: "ra_zip ?s2 = Some src" using src by simp
  from run a have "except_clauses e ?s2 = (res, self')"
    by (simp add: try_loads_def load_data_result[OF src] load_metadata_result[OF s1]
        load_report_contents_result[OF s2])
  then have "fst (except_clauses e ?s2) = res" "snd (except_clauses e ?s2) = self'"
    by simp_all
  then show ?thesis using except_clauses_fst[of e ?s2 self] by simp
qed

lemma try_loads_succeeds:
  assumes src: "ra_zip self = Some src" and run: "try_loads env self = (res, self')"
    and a: "archive_table env src ''data.csv'' (read_csv_data env) = Inr d"
      "archive_table env src ''metadata.csv'' (read_csv_metadata env) = Inr m"
      "archive_table env src ''reportContents.json'' (json_load env) = Inr r"
  shows "(\<forall>e. res \<noteq> Inl e) \<and> res \<noteq> Inr (Some False) \<and>
      self' = self\<lparr>data := Some d, metadata := Some m, report_contents := Some r\<rparr>"
proof -
  have s1: "ra_zip (self\<lparr>data := Some d\<rparr>) = Some src" using src by simp
  have s2: "ra_zip (self\<lparr>data := Some d, metadata := Some m\<rparr>) = Some src" using src by simp
  from run a have "res = Inr None"
    "self' = self\<lparr>data := Some d, metadata := Some m, report_contents := Some r\<rparr>"
    by (simp_all add: try_loads_def load_data_result[OF src] load_metadata_result[OF s1]
        load_report_contents_result[OF s2])
  then show ?thesis by simp
qed

text \<open>
  C7 (the claim: after a failed \<open>read_zip\<close> none of the three tables is loaded). For the
  archive without \<open>metadata.csv\<close> the call raises \<open>KeyError\<close>, and the holder, empty
  before, holds the data table.
\<close>

theorem read_zip_partial_load:
  "fst (read_zip example_zip_env (Bytes ''partial'') empty_holder)
     = Inl (KeyError ''report/metadata.csv'')
   \<and> data (snd (read_zip example_zip_env (Bytes ''partial'') empty_holder)) = Some example_data
   \<and> metadata (snd (read_zip example_zip_env (Bytes ''partial'') empty_holder)) = None
   \<and> report_contents (snd (read_zip example_zip_env (Bytes ''partial'') empty_holder)) = None"
  by (simp add: read_zip_def try_loads_def load_data_def load_metadata_def open_member_def
      read_member_def example_zip_env_def empty_holder_def)

text \<open>
  C7, as the code has it. \<open>read_zip\<close> reads \<open>data.csv\<close>, \<open>metadata.csv\<close> and
  \<open>reportContents.json\<close> from the archive in this order and stores each table in the
  holder as soon as it is read. When all three loads succeed, the holder holds the three
  tables of the archive and the call does not fail. When a load fails, the call fails
  with the error of that load (it raises it, or returns \<open>False\<close> for a
  \<open>FileNotFoundError\<close>), the tables of the archive read before it are in the holder, and
  the table that failed and the later ones are as they were before the call. A path that
  does not exist raises \<open>FileNotFoundError\<close> and leaves the holder as it was.
\<close>

theorem read_zip_loads_in_order:
  assumes run: "read_zip env arg self = (res, self')"
  shows "(\<forall>p. arg = Path_like p \<and> \<not> path_exists env p \<longrightarrow>
            res = Inl (FileNotFoundError (''The zip file '' @ p @ '' does not exist''))
            \<and> self' = self) \<and>
         (\<forall>src. (\<exists>b. arg = Bytes b \<and> src = BytesIO b)
                 \<or> (\<exists>p. arg = Path_like p \<and> path_exists env p \<and> src = PathObj p) \<longrightarrow>
            (\<forall>e. archive_table env src ''data.csv'' (read_csv_data env) = Inl e \<longrightarrow>
               res = fst (except_clauses e self) \<and> self' = self\<lparr>ra_zip := Some src\<rparr>) \<and>
            (\<forall>d e. archive_table env src ''data.csv'' (read_csv_data env) = Inr d \<and>
                   archive_table env src ''metadata.csv'' (read_csv_metadata env) = Inl e \<longrightarrow>
               res = fst (except_clauses e self) \<and>
               self' = self\<lparr>ra_zip := Some src, data := Some d\<rparr>) \<and>
            (\<forall>d m e. archive_table env src ''data.csv'' (read_csv_data env) = Inr d \<and>
                   archive_table env src ''metadata.csv'' (read_csv_metadata env) = Inr m \<and>
                   archive_table env src ''reportContents.json'' (json_load env) = Inl e \<longrightarrow>
               res = fst (except_clauses e self) \<and>
               self' = self\<lparr>ra_zip := Some src, data := Some d, metadata := Some m\<rparr>) \<and>
            (\<forall>d m r. archive_table env src ''data.csv'' (read_csv_data env) = Inr d \<and>
                   archive_table env src ''metadata.csv'' (read_csv_metadata env) = Inr m \<and>
                   archive_table env src ''reportContents.json'' (json_load env) = Inr r \<longrightarrow>
               (\<forall>e. res \<noteq> Inl e) \<and> res \<noteq> Inr (Some False) \<and>
               self' = self\<lparr>ra_zip := Some src, data := Some d, metadata := Some m,
                              report_contents := Some r\<rparr>))"
proof -
  have missing: "\<forall>p. arg = Path_like p \<and> \<not> path_exists env p \<longrightarrow>
            res = Inl (FileNotFoundError (''The zip file '' @ p @ '' does not exist''))
            \<and> self' = self"
    using run by (auto simp: read_zip_def)
  have opened: "(\<forall>e. archive_table env src ''data.csv'' (read_csv_data env) = Inl e \<longrightarrow>
               res = fst (except_clauses e self) \<and> self' = self\<lparr>ra_zip := Some src\<rparr>) \<and>
            (\<forall>d e. archive_table env src ''data.csv'' (read_csv_data env) = Inr d \<and>
                   archive_table env src ''metadata.csv'' (read_csv_metadata env) = Inl e \<longrightarrow>
               res = fst (except_clauses e self) \<and>
               self' = self\<lparr>ra_zip := Some src, data := Some d\<rparr>) \<and>
            (\<forall>d m e. archive_table env src ''data.csv'' (read_csv_data env) = Inr d \<and>
                   archive_table env src ''metadata.csv'' (read_csv_metadata env) = Inr m \<and>
                   archive_table env src ''reportContents.json'' (json_load env) = Inl e \<longrightarrow>
               res = fst (except_clauses e self) \<and>
               self' = self\<lparr>ra_zip := Some src, data := Some d, metadata := Some m\<rparr>) \<and>
            (\<forall>d m r. archive_table env src ''data.csv'' (read_csv_data env) = Inr d \<and>
                   archive_table env src ''metadata.csv'' (read_csv_metadata env) = Inr m \<and>
                   archive_table env src ''reportContents.json'' (json_load env) = Inr r \<longrightarrow>
               (\<forall>e. res \<noteq> Inl e) \<and> res \<noteq> Inr (Some False) \<and>
               self' = self\<lparr>ra_zip := Some src, data := Some d, metadata := Some m,
                              report_contents := Some r\<rparr>)"
    if "(\<exists>b. arg = Bytes b \<and> src = BytesIO b)
          \<or> (\<exists>p. arg = Path_like p \<and> path_exists env p \<and> src = PathObj p)" for src
  proof -
    let ?h = "self\<lparr>ra_zip := Some src\<rparr>"
    from that run have t: "try_loads env ?h = (res, self')"
      by (auto simp: read_zip_def)
    have s: "ra_zip ?h = Some src" by simp
    have f: "fst (except_clauses e ?h) = fst (except_clauses e self)" for e
      by (rule except_clauses_fst)
    have c1: "\<forall>e. archive_table env src ''data.csv'' (read_csv_data env) = Inl e \<longrightarrow>
               res = fst (except_clauses e self) \<and> self' = ?h"
    proof (intro allI impI)
      fix e assume a: "archive_table env src ''data.csv'' (read_csv_data env) = Inl e"
      from try_loads_data_fails[OF s t a] show "res = fst (except_clauses e self) \<and> self' = ?h"
        by (simp only: f)
    qed
    have c2: "\<forall>d e. archive_table env src ''data.csv'' (read_csv_data env) = Inr d \<and>
                   archive_table env src ''metadata.csv'' (read_csv_metadata env) = Inl e \<longrightarrow>
               res = fst (except_clauses e self) \<and> self' = ?h\<lparr>data := Some d\<rparr>"
    proof (intro allI impI)
      fix d e
      assume a: "archive_table env src ''data.csv'' (read_csv_data env) = Inr d \<and>
                 archive_table env src ''metadata.csv'' (read_csv_metadata env) = Inl e"
      from try_loads_metadata_fails[OF s t conjunct1[OF a] conjunct2[OF a]]
      show "res = fst (except_clauses e self) \<and> self' = ?h\<lparr>data := Some d\<rparr>"
        by (simp only: f)
    qed
    have c3: "\<forall>d m e. archive_table env src ''data.csv'' (read_csv_data env) = Inr d \<and>
                   archive_table env src ''metadata.csv'' (read_csv_metadata env) = Inr m \<and>
                   archive_table env src ''reportContents.json'' (json_load env) = Inl e \<longrightarrow>
               res = fst (except_clauses e self) \<and>
               self' = ?h\<lparr>data := Some d, metadata := Some m\<rparr>"
    proof (intro allI impI)
      fix d m e
      assume a: "archive_table env src ''data.csv'' (read_csv_data env) = Inr d \<and>
                 archive_table env src ''metadata.csv'' (read_csv_metadata env) = Inr m \<and>
                 archive_table env src ''reportContents.json'' (json_load env) = Inl e"
      from try_loads_report_fails[OF s t conjunct1[OF a] conjunct1[OF conjunct2[OF a]]
          conjunct2[OF conjunct2[OF a]]]
      show "res = fst (except_clauses e self) \<and>
               self' = ?h\<lparr>data := Some d, metadata := Some m\<rparr>"
        by (simp only: f)
    qed
    have c4: "\<forall>d m r. archive_table env src ''data.csv'' (read_csv_data env) = Inr d \<and>
                   archive_table env src ''metadata.csv'' (read_csv_metadata env) = Inr m \<and>
                   archive_table env src ''reportContents.json'' (json_load env) = Inr r \<longrightarrow>
               (\<forall>e. res \<noteq> Inl e) \<and> res \<noteq> Inr (Some False) \<and>
               self' = ?h\<lparr>data := Some d, metadata := Some m, report_contents := Some r\<rparr>"
    proof (intro allI impI)
      fix d m r
      assume a: "archive_table env src ''data.csv'' (read_csv_data env) = Inr d \<and>
                 archive_table env src ''metadata.csv'' (read_csv_metadata env) = Inr m \<and>
                 archive_table env src ''reportContents.json'' (json_load env) = Inr r"
      from try_loads_succeeds[OF s t conjunct1[OF a] conjunct1[OF conjunct2[OF a]]
          conjunct2[OF conjunct2[OF a]]]
      show "(\<forall>e. res \<noteq> Inl e) \<and> res \<noteq> Inr (Some False) \<and>
               self' = ?h\<lparr>data := Some d, metadata := Some m, report_contents := Some r\<rparr>" .
    qed
    from c1 c2 c3 c4 show ?thesis by (intro conjI)
  qed
  show ?thesis
  proof (intro conjI)
    show "\<forall>p. arg = Path_like p \<and> \<not> path_exists env p \<longrightarrow>
            res = Inl (FileNotFoundError (''The zip file '' @ p @ '' does not exist''))
            \<and> self' = self" by (rule missing)
  qed (intro allI impI, rule opened)
qed

text \<open>
  The complete archive, opened on a holder that has the tables of an earlier archive:
  the three tables of the new archive replace them.
\<close>

theorem read_zip_loads_in_order_witness:
  "snd (read_zip example_zip_env (Bytes ''complete'') stale_holder)
     = example_holder\<lparr>ra_zip := Some (BytesIO ''complete'')\<rparr>
   \<and> data stale_holder \<noteq> data example_holder"
proof -
  obtain res self' where run:
    "read_zip example_zip_env (Bytes ''complete'') stale_holder = (res, self')"
    by (cases "read_zip example_zip_env (Bytes ''complete'') stale_holder")
  have d: "archive_table example_zip_env (BytesIO ''complete'') ''data.csv''
             (read_csv_data example_zip_env) = Inr example_data"
    and m: "archive_table example_zip_env (BytesIO ''complete'') ''metadata.csv''
             (read_csv_metadata example_zip_env) = Inr example_metadata"
    and r: "archive_table example_zip_env (BytesIO ''complete'') ''reportContents.json''
             (json_load example_zip_env) = Inr example_report"
    by (simp_all add: archive_table_def read_member_def example_zip_env_def)
  have "(\<exists>b. Bytes ''complete'' = Bytes b \<and> BytesIO ''complete'' = BytesIO b)
          \<or> (\<exists>p. Bytes ''complete'' = Path_like p \<and> path_exists example_zip_env p
                  \<and> BytesIO ''complete'' = PathObj p)"
    by simp
  with read_zip_loads_in_order[OF run, THEN conjunct2, THEN spec, of "BytesIO ''complete''"]
  have "\<forall>d m r. archive_table example_zip_env (BytesIO ''complete'') ''data.csv''
                    (read_csv_data example_zip_env) = Inr d \<and>
                 archive_table example_zip_env (BytesIO ''complete'') ''metadata.csv''
                    (read_csv_metadata example_zip_env) = Inr m \<and>
                 archive_table example_zip_env (BytesIO ''complete'') ''reportContents.json''
                    (json_load example_zip_env) = Inr r \<longrightarrow>
               (\<forall>e. res \<noteq> Inl e) \<and> res \<noteq> Inr (Some False) \<and>
               self' = stale_holder\<lparr>ra_zip := Some (BytesIO ''complete''), data := Some d,
                           metadata := Some m, report_contents := Some r\<rparr>"
    by (elim impE conjE) assumption+
  with d m r
  have "self' = stale_holder\<lparr>ra_zip := Some (BytesIO ''complete''), data := Some example_data,
          metadata := Some example_metadata, report_contents := Some example_report\<rparr>"
    by (elim allE impE conjE) (intro conjI, assumption+)
  with run show ?thesis
    by (simp add: stale_holder_def example_holder_def example_data_def)
qed

subsection \<open>What the aggregation loop leaves\<close>



lemma segments_to_corridor_example_wide:
  "segments_to_corridor weekday_stub example_holder ''wide'' (Some ''speed'') =
     Inr (Wide_table [''08:00'']
       [\<lparr>w_Corridor = ''Main St'', w_Date = ''2021-03-01'', w_Day_of_Week = ''Monday'',
         w_cells = [Num 30]\<rparr>])"
  by (simp add: segments_to_corridor_def create_data_agg_def get_format_data_for_agg_def
      example_holder_def example_data_def example_metadata_def example_report_def
      example_row_def drop_duplicates_def strip_offset_def groupby_sum_all_def gb_cols_def
      nansum_def corridor_length_def alt_count_def add_speed_def agg_row.extend_def
      float_div_def pivot_table_def weekday_stub_def Let_def)






lemma agg_key_with_corridor [simp]: "agg_key (with_corridor md cs r) = agg_key r"
  by (simp add: with_corridor_def split: option.splits)

lemma agg_Travel_Time_with_corridor [simp]:
  "agg_Travel_Time (with_corridor md cs r) = agg_Travel_Time r"
  by (simp add: with_corridor_def split: option.splits)







lemma add_speed_fields [simp]:
  "agg_key (add_speed r) = agg_key r"
  "agg_Travel_Time (add_speed r) = agg_Travel_Time r"
  "Speed (add_speed r) = float_times_60 (float_div (Corridor_Length r) (agg_Travel_Time r))"
  by (simp_all add: add_speed_def agg_row.extend_def)


subsection \<open>When the aggregation returns\<close>

text \<open>
  On a loaded holder whose report has a corridor, and whose formatted data has a row for
  each corridor name of the report, \<open>segments_to_corridor\<close> returns its long table.
\<close>

lemma assign_corridors_returns:
  "(\<forall>c \<in> set cs. name c \<in> set (map (\<lambda>r. fst (agg_key r)) data_agg)) \<Longrightarrow>
   \<exists>data_agg'. assign_corridors md cs data_agg = Inr data_agg'"
proof (induction cs arbitrary: data_agg)
  case Nil
  then show ?case by simp
next
  case (Cons c cs)
  let ?upd = "\<lambda>r. if fst (agg_key r) = name c
      then r\<lparr>Corridor_Length := Some (corridor_length md c), Segment_Count := Some (length (xdSegIds c))\<rparr>
      else r"
  have keys: "map (\<lambda>r. fst (agg_key r)) (map ?upd data_agg) = map (\<lambda>r. fst (agg_key r)) data_agg"
    by (induction data_agg) simp_all
  from Cons.prems have "\<forall>c \<in> set cs. name c \<in> set (map (\<lambda>r. fst (agg_key r)) (map ?upd data_agg))"
    by (simp only: keys) simp
  from Cons.IH[OF this] Cons.prems show ?case by (simp add: Let_def)
qed

lemma segments_to_corridor_returns:
  assumes fm: "get_format_data_for_agg self = Inr fm"
    and md: "metadata self = Some md"
    and rc: "report_contents self = Some rc"
    and some: "corridors rc \<noteq> []"
    and seen: "\<forall>c \<in> set (corridors rc). name c \<in> fm_Corridor ` set fm"
  shows "\<exists>rows. segments_to_corridor day_name self ''long'' wide_metric = Inr (Long_table rows)"
proof -
  have "set (map (\<lambda>r. fst (agg_key r)) (groupby_sum_all fm)) = fm_Corridor ` set fm"
    by (auto simp: groupby_sum_all_def gb_cols_def image_iff)
  with seen have "\<forall>c \<in> set (corridors rc). name c \<in> set (map (\<lambda>r. fst (agg_key r)) (groupby_sum_all fm))"
    by simp
  from assign_corridors_returns[OF this, of md]
  obtain data_agg where "assign_corridors md (corridors rc) (groupby_sum_all fm) = Inr data_agg"
    by blast
  then show ?thesis
    using fm md rc some
    by (simp add: segments_to_corridor_def create_data_agg_def long_table_def)
qed

subsection \<open>Full coverage only\<close>



subsection \<open>The speed of a row\<close>



subsection \<open>Arguments are checked first\<close>

text \<open>
  C8. With an \<open>out_format\<close> other than \<open>wide\<close> and \<open>long\<close>, and with \<open>out_format = wide\<close>
  and a \<open>wide_metric\<close> other than \<open>speed\<close> and \<open>travel_time\<close> (\<open>None\<close> when it is not
  given), \<open>segments_to_corridor\<close> raises \<open>ValueError\<close> with its message for every holder,
  whatever the holder has loaded: nothing of the holder is read before the checks. On the
  empty holder, where formatting raises \<open>AttributeError\<close>, the wrong arguments still get
  the \<open>ValueError\<close>.
\<close>

theorem segments_to_corridor_validates_first:
  "(out_format \<noteq> ''wide'' \<and> out_format \<noteq> ''long'' \<longrightarrow>
      segments_to_corridor day_name self out_format wide_metric
        = Inl (ValueError (''out_format is '' @ quoted out_format @ '', should be ''
               @ quoted ''wide'' @ '' or '' @ quoted ''long'')))
   \<and> (wide_metric \<noteq> Some ''speed'' \<and> wide_metric \<noteq> Some ''travel_time'' \<longrightarrow>
      segments_to_corridor day_name self ''wide'' wide_metric
        = Inl (ValueError (''wide_metric is '' @ quoted ''wide'' @ '', should be ''
               @ quoted ''speed'' @ '' or '' @ quoted ''travel_time'')))"
  by (simp add: segments_to_corridor_def)

theorem segments_to_corridor_validates_first_witness:
  "segments_to_corridor weekday_stub empty_holder ''tall'' None
     = Inl (ValueError (''out_format is '' @ quoted ''tall'' @ '', should be ''
               @ quoted ''wide'' @ '' or '' @ quoted ''long''))
   \<and> segments_to_corridor weekday_stub empty_holder ''wide'' None
     = Inl (ValueError (''wide_metric is '' @ quoted ''wide'' @ '', should be ''
               @ quoted ''speed'' @ '' or '' @ quoted ''travel_time''))
   \<and> segments_to_corridor weekday_stub empty_holder ''long'' None = Inl AttributeError"
  using segments_to_corridor_validates_first[of "''tall''" weekday_stub empty_holder None]
  by (simp add: quoted_def segments_to_corridor_def create_data_agg_def
      get_format_data_for_agg_def empty_holder_def)

end
